theory Spec2Isabelle
  imports Complex_Main
begin

section \<open>The external world\<close>

text \<open>
  The repository drives four remote services (object store, vector store, identity service,
  knowledge-base service) through boto3 clients, reads a local directory, sleeps and prints.
  None of these is computed by the program, so the model takes them as parameters: every
  client operation is a function of the interaction history so far and of its arguments,
  returning either a service error or a response. The program's only state is then the
  history itself, which it extends with one event per request, sleep or printed line.

  A service error carries the name of the exception class botocore raises for it (what
  an \<open>except client.exceptions.X\<close> clause matches) and the error code of the response (what
  \<open>error.response.get("Error", {}).get("Code")\<close> reads). Every such error is a
  \<open>ClientError\<close> in Python. Durations are Python floats; the model uses exact rationals.
\<close>

datatype client_error = ClientErr (exc_class: string) (error_code: string)

datatype exn =
    ClientError client_error
  | S3UploadFailedError client_error
  | ValueError string
  | FileNotFoundError string
  | TimeoutError string rat
  | OverflowError string

datatype IngestionStatus = STARTING | IN_PROGRESS | COMPLETE | FAILED | STOPPING | STOPPED

datatype policy_doc =
    TrustPolicy string
  | AllowPolicy "string list" "string list"

datatype api_call =
    HeadBucket string
  | CreateBucket string "string option"
  | UploadFile string string string
  | ListObjectsV2 string
  | DeleteObjects string "string list"
  | DeleteBucket string
  | GetVectorBucket string
  | CreateVectorBucket string
  | GetIndex string string
  | CreateIndex string string string int string
  | DeleteIndex string string
  | DeleteVectorBucket string
  | GetRole string
  | CreateRole string policy_doc string
  | PutRolePolicy string string policy_doc
  | ListRolePolicies string
  | DeleteRolePolicy string string
  | ListAttachedRolePolicies string
  | DetachRolePolicy string string
  | DeleteRole string
  | ListKnowledgeBases
  | CreateKnowledgeBase string string string string string
  | ListDataSources string
  | CreateDataSource string string string string string
  | GetKnowledgeBase string
  | GetDataSource string string
  | UpdateDataSource string string string string string "string option"
  | DeleteDataSource string string
  | DeleteKnowledgeBase string
  | StartIngestionJob string string string
  | GetIngestionJob string string string
  | StopIngestionJob string string string

text \<open>
  Printed lines are kept structured: the constructor names the \<open>print\<close> statement and its
  arguments are the values the f-string interpolates. The wall-clock timestamp of the status
  line is left out. The console output of \<open>cleanup.py\<close> is not modelled.
\<close>

datatype line =
    SUCCESS string
  | FAIL string exn
  | StartingLine string string
  | StartedLine string
  | StatusLine IngestionStatus string string
  | ExcLine exn
  | SummaryHeader
  | SummaryStatus IngestionStatus
  | SummaryDocuments string string string string

datatype event =
    Request api_call "client_error option"
  | Slept rat
  | Printed line

type_synonym history = "event list"

record statistics_t =
  numberOfDocumentsScanned :: "int option"
  numberOfNewDocumentsIndexed :: "int option"
  numberOfModifiedDocumentsIndexed :: "int option"
  numberOfDocumentsFailed :: "int option"

text \<open>
  An ingestion job as \<open>get_ingestion_job\<close> returns it. A missing \<open>statistics\<close> entry is the
  record of four \<open>None\<close>; \<open>failureReasons\<close> is \<open>None\<close> when the key is missing or null.
\<close>

record job =
  ingestionJobId :: string
  status :: IngestionStatus
  statistics :: statistics_t
  failureReasons :: "string list option"

record data_source_t =
  ds_name :: string
  dataSourceConfiguration :: string
  ds_description :: "string option"

text \<open>
  A paginated listing is the finite list of its pages, fixed when the pagination starts;
  each page is fetched by one request and is either an error, raised when the loop reaches
  it, or the page's items.
\<close>

record s3_client =
  head_bucket :: "history \<Rightarrow> string \<Rightarrow> client_error + unit"
  create_bucket :: "history \<Rightarrow> string \<Rightarrow> string option \<Rightarrow> client_error + unit"
  upload_file :: "history \<Rightarrow> string \<Rightarrow> string \<Rightarrow> string \<Rightarrow> client_error + unit"
  list_objects_v2 :: "history \<Rightarrow> string \<Rightarrow> (client_error + string list) list"
  delete_objects :: "history \<Rightarrow> string \<Rightarrow> string list \<Rightarrow> client_error + unit"
  delete_bucket :: "history \<Rightarrow> string \<Rightarrow> client_error + unit"

record s3vectors_client =
  get_vector_bucket :: "history \<Rightarrow> string \<Rightarrow> client_error + string"
  create_vector_bucket :: "history \<Rightarrow> string \<Rightarrow> client_error + unit"
  get_index :: "history \<Rightarrow> string \<Rightarrow> string \<Rightarrow> client_error + string"
  create_index ::
    "history \<Rightarrow> string \<Rightarrow> string \<Rightarrow> string \<Rightarrow> int \<Rightarrow> string \<Rightarrow> client_error + unit"
  delete_index :: "history \<Rightarrow> string \<Rightarrow> string \<Rightarrow> client_error + unit"
  delete_vector_bucket :: "history \<Rightarrow> string \<Rightarrow> client_error + unit"

record iam_client =
  get_role :: "history \<Rightarrow> string \<Rightarrow> client_error + string"
  create_role :: "history \<Rightarrow> string \<Rightarrow> policy_doc \<Rightarrow> string \<Rightarrow> client_error + string"
  put_role_policy :: "history \<Rightarrow> string \<Rightarrow> string \<Rightarrow> policy_doc \<Rightarrow> client_error + unit"
  list_role_policies :: "history \<Rightarrow> string \<Rightarrow> client_error + string list"
  delete_role_policy :: "history \<Rightarrow> string \<Rightarrow> string \<Rightarrow> client_error + unit"
  list_attached_role_policies ::
    "history \<Rightarrow> string \<Rightarrow> client_error + (string \<times> string) list"
  detach_role_policy :: "history \<Rightarrow> string \<Rightarrow> string \<Rightarrow> client_error + unit"
  delete_role :: "history \<Rightarrow> string \<Rightarrow> client_error + unit"

record bedrock_agent_client =
  list_knowledge_bases :: "history \<Rightarrow> (client_error + (string \<times> string) list) list"
  create_knowledge_base ::
    "history \<Rightarrow> string \<Rightarrow> string \<Rightarrow> string \<Rightarrow> string \<Rightarrow> string \<Rightarrow> client_error + string"
  list_data_sources ::
    "history \<Rightarrow> string \<Rightarrow> (client_error + (string \<times> string) list) list"
  create_data_source ::
    "history \<Rightarrow> string \<Rightarrow> string \<Rightarrow> string \<Rightarrow> string \<Rightarrow> string \<Rightarrow> client_error + string"
  get_knowledge_base :: "history \<Rightarrow> string \<Rightarrow> client_error + unit"
  get_data_source :: "history \<Rightarrow> string \<Rightarrow> string \<Rightarrow> client_error + data_source_t"
  update_data_source ::
    "history \<Rightarrow> string \<Rightarrow> string \<Rightarrow> string \<Rightarrow> string \<Rightarrow> string \<Rightarrow> string option
      \<Rightarrow> client_error + unit"
  delete_data_source_op :: "history \<Rightarrow> string \<Rightarrow> string \<Rightarrow> client_error + unit"
  delete_knowledge_base_op :: "history \<Rightarrow> string \<Rightarrow> client_error + unit"
  start_ingestion_job :: "history \<Rightarrow> string \<Rightarrow> string \<Rightarrow> string \<Rightarrow> client_error + string"
  get_ingestion_job :: "history \<Rightarrow> string \<Rightarrow> string \<Rightarrow> string \<Rightarrow> client_error + job"

text \<open>
  \<open>config.py\<close>: the settings the three scripts read. The three resource names are always
  set once \<open>Settings.__init__\<close> has run, so they are plain strings here.
\<close>

record Settings =
  AWS_REGION :: string
  DOCUMENT_S3_BUCKET :: string
  DOCUMENT_S3_PREFIX :: string
  VECTOR_BUCKET_NAME :: string
  VECTOR_INDEX_NAME :: string
  BEDROCK_EMBEDDING_MODEL_ARN :: string
  BEDROCK_EMBEDDING_DIMENSION :: int
  KNOWLEDGE_BASE_NAME :: string
  LOCAL_DATA_DIR :: string
  BEDROCK_ROLE_NAME :: string
  KNOWLEDGE_BASE_ID :: "string option"
  DATA_SOURCE_ID :: "string option"

text \<open>
  The local directory: whether the root exists and what \<open>rglob("*")\<close> yields, each entry as
  its POSIX path relative to the root with its \<open>is_file()\<close> flag.
\<close>

record local_fs =
  local_dir_exists :: bool
  rglob :: "(string \<times> bool) list"

record env =
  settings :: Settings
  s3 :: s3_client
  s3vectors :: s3vectors_client
  iam :: iam_client
  bedrock_agent :: bedrock_agent_client
  fs :: local_fs
  uuid4 :: "history \<Rightarrow> string"

definition request :: "api_call \<Rightarrow> client_error + 'a \<Rightarrow> history \<Rightarrow> (client_error + 'a) \<times> history" where
  "request c r h =
     (r, h @ [Request c (case r of Inl e \<Rightarrow> Some e | Inr _ \<Rightarrow> None)])"

text \<open>Python truthiness of a \<open>str | None\<close>: \<open>None\<close> and the empty string are falsy.\<close>

definition truthy :: "string option \<Rightarrow> bool" where
  "truthy v = (case v of None \<Rightarrow> False | Some s \<Rightarrow> s \<noteq> [])"

section \<open>sync.py\<close>

definition start_sync :: "env \<Rightarrow> string \<Rightarrow> string \<Rightarrow> history \<Rightarrow> (exn + string) \<times> history" where
  "start_sync e knowledge_base_id data_source_id h =
     (let token = uuid4 e h in
      case request (StartIngestionJob knowledge_base_id data_source_id token)
             (start_ingestion_job (bedrock_agent e) h knowledge_base_id data_source_id token) h of
        (Inl err, h1) \<Rightarrow> (Inl (ClientError err), h1)
      | (Inr ingestion_job_id, h1) \<Rightarrow> (Inr ingestion_job_id, h1))"

text \<open>
  The observer passed as \<open>on_update\<close> owns some state of type \<open>'s\<close> (the variables its
  closure captures) and may print; it returns its new state and the lines it printed.
\<close>

type_synonym 's callback = "IngestionStatus \<Rightarrow> job \<Rightarrow> 's \<Rightarrow> 's \<times> line list"

definition terminal :: "IngestionStatus \<Rightarrow> bool" where
  "terminal st = (st = COMPLETE \<or> st = FAILED \<or> st = STOPPED)"

text \<open>
  \<open>time.sleep(d)\<close> can itself raise. CPython first converts the duration to a signed 64-bit
  count of nanoseconds, rounding away from zero, and raises \<open>OverflowError\<close> when the count
  does not fit (from about 9.2e9 seconds on); then it raises \<open>ValueError\<close> when the duration is
  negative. \<open>None\<close> is a sleep that returns.
\<close>

definition sleep_error :: "rat \<Rightarrow> exn option" where
  "sleep_error d =
     (let ns = (if 0 \<le> d then \<lceil>d * 1000000000\<rceil> else \<lfloor>d * 1000000000\<rfloor>) in
      if ns < - (2 ^ 63) \<or> 2 ^ 63 \<le> ns then
        Some (OverflowError ''timestamp too large to convert to C _PyTime_t'')
      else if d < 0 then Some (ValueError ''sleep length must be non-negative'')
      else None)"

text \<open>
  The \<open>while waited <= timeout_seconds\<close> loop. It need not end (a poll interval of zero and
  a job that never finishes), so it is a partial function: \<open>None\<close> is "does not return".
  An exception of \<open>time.sleep\<close> leaves the loop.
\<close>

partial_function (option) wait_loop ::
  "env \<Rightarrow> string \<Rightarrow> string \<Rightarrow> string \<Rightarrow> rat \<Rightarrow> rat \<Rightarrow> 's callback option \<Rightarrow> rat \<Rightarrow> 's \<Rightarrow> history
    \<Rightarrow> ((exn + job) \<times> 's \<times> history) option" where
  "wait_loop e knowledge_base_id data_source_id ingestion_job_id poll_seconds timeout_seconds
      on_update waited s h =
     (if waited \<le> timeout_seconds then
        (case request (GetIngestionJob knowledge_base_id data_source_id ingestion_job_id)
                (get_ingestion_job (bedrock_agent e) h
                   knowledge_base_id data_source_id ingestion_job_id) h of
           (Inl err, h1) \<Rightarrow> Some (Inl (ClientError err), s, h1)
         | (Inr jb, h1) \<Rightarrow>
             (case (case on_update of
                      None \<Rightarrow> (s, h1)
                    | Some f \<Rightarrow> (case f (status jb) jb s of
                                   (s', out) \<Rightarrow> (s', h1 @ map Printed out))) of
                (s2, h2) \<Rightarrow>
                  if terminal (status jb) then Some (Inr jb, s2, h2)
                  else
                    (case sleep_error poll_seconds of
                       Some exc \<Rightarrow> Some (Inl exc, s2, h2)
                     | None \<Rightarrow>
                         wait_loop e knowledge_base_id data_source_id ingestion_job_id
                           poll_seconds timeout_seconds on_update
                           (waited + poll_seconds) s2 (h2 @ [Slept poll_seconds]))))
      else Some (Inl (TimeoutError ingestion_job_id timeout_seconds), s, h))"

declare wait_loop.simps [code]

definition wait_for_sync ::
  "env \<Rightarrow> string \<Rightarrow> string \<Rightarrow> string \<Rightarrow> rat \<Rightarrow> rat \<Rightarrow> 's callback option \<Rightarrow> 's \<Rightarrow> history
    \<Rightarrow> ((exn + job) \<times> 's \<times> history) option" where
  "wait_for_sync e knowledge_base_id data_source_id ingestion_job_id poll_seconds
      timeout_seconds on_update s h =
     wait_loop e knowledge_base_id data_source_id ingestion_job_id poll_seconds
       timeout_seconds on_update 0 s h"

definition sync_data_source ::
  "env \<Rightarrow> string \<Rightarrow> string \<Rightarrow> history \<Rightarrow> ((exn + job) \<times> history) option" where
  "sync_data_source e knowledge_base_id data_source_id h =
     (case start_sync e knowledge_base_id data_source_id h of
        (Inl x, h1) \<Rightarrow> Some (Inl x, h1)
      | (Inr ingestion_job_id, h1) \<Rightarrow>
          map_option (\<lambda>(r, u, h2). (r, h2))
            (wait_for_sync e knowledge_base_id data_source_id ingestion_job_id 20 3600
               (None :: unit callback option) () h1))"

text \<open>\<open>str\<close> of an integer, for \<open>_format_stat\<close>.\<close>

function str_nat :: "nat \<Rightarrow> string" where
  "str_nat n =
     (if n < 10 then [''0123456789'' ! n]
      else str_nat (n div 10) @ [''0123456789'' ! (n mod 10)])"
  by pat_completeness auto
termination
  by (relation "measure id") auto

definition str_int :: "int \<Rightarrow> string" where
  "str_int i = (if i < 0 then CHR ''-'' # str_nat (nat (- i)) else str_nat (nat i))"

definition format_stat :: "int option \<Rightarrow> string" where
  "format_stat v = (case v of None \<Rightarrow> ''?'' | Some i \<Rightarrow> str_int i)"

text \<open>
  The closure \<open>on_update\<close> of \<open>main\<close>; its state is the captured \<open>last_status\<close>.
\<close>

definition on_update :: "IngestionStatus option callback" where
  "on_update st jb last_status =
     (if Some st \<noteq> last_status then
        (let stats = statistics jb;
             scanned = format_stat (numberOfDocumentsScanned stats);
             failed = format_stat (numberOfDocumentsFailed stats)
         in (Some st, [StatusLine st scanned failed]))
      else (last_status, []))"

text \<open>
  How \<open>main\<close> ends: \<open>SystemExit\<close> with an integer code, \<open>SystemExit\<close> with a message
  (which the interpreter prints, exiting with status 1), or another exception left uncaught.
\<close>

datatype outcome = SystemExit int | SystemExitMsg string | Uncaught exn

definition exit_code_of :: "job \<Rightarrow> int" where
  "exit_code_of final_job =
     (let failures = (case failureReasons final_job of None \<Rightarrow> [] | Some rs \<Rightarrow> rs)
      in if status final_job = COMPLETE \<and> failures = [] then 0 else 1)"

definition sync_main :: "env \<Rightarrow> history \<Rightarrow> (outcome \<times> history) option" where
  "sync_main e h =
     (if \<not> truthy (KNOWLEDGE_BASE_ID (settings e)) \<or> \<not> truthy (DATA_SOURCE_ID (settings e)) then
        Some (SystemExitMsg
          ''Knowledge base ID and data source ID must be configured in Settings before running sync.'',
          h)
      else
        (let knowledge_base_id = the (KNOWLEDGE_BASE_ID (settings e));
             data_source_id = the (DATA_SOURCE_ID (settings e));
             h0 = h @ [Printed (StartingLine knowledge_base_id data_source_id)]
         in case start_sync e knowledge_base_id data_source_id h0 of
              (Inl x, h1) \<Rightarrow> Some (Uncaught x, h1)
            | (Inr ingestion_job_id, h1) \<Rightarrow>
                (case wait_for_sync e knowledge_base_id data_source_id ingestion_job_id 20 3600
                        (Some on_update) None (h1 @ [Printed (StartedLine ingestion_job_id)]) of
                   None \<Rightarrow> None
                 | Some (Inl (TimeoutError j t), last_status, h2) \<Rightarrow>
                     Some (SystemExit 1, h2 @ [Printed (ExcLine (TimeoutError j t))])
                 | Some (Inl x, last_status, h2) \<Rightarrow> Some (Uncaught x, h2)
                 | Some (Inr final_job, last_status, h2) \<Rightarrow>
                     (let stats = statistics final_job in
                      Some (SystemExit (exit_code_of final_job),
                            h2 @ [Printed SummaryHeader,
                                  Printed (SummaryStatus (status final_job)),
                                  Printed (SummaryDocuments
                                    (format_stat (numberOfDocumentsScanned stats))
                                    (format_stat (numberOfNewDocumentsIndexed stats))
                                    (format_stat (numberOfModifiedDocumentsIndexed stats))
                                    (format_stat (numberOfDocumentsFailed stats)))])))))"

section \<open>cleanup.py\<close>

text \<open>
  \<open>CleanupSummary\<close>: each flag is \<open>True\<close>, \<open>False\<close> or \<open>None\<close>. The fields are in
  the order of the dataclass, which is the order \<open>__dict__\<close> iterates in.
\<close>

record CleanupSummary =
  knowledge_base_deleted :: "bool option"
  data_source_deleted :: "bool option"
  vector_index_deleted :: "bool option"
  vector_bucket_deleted :: "bool option"
  documents_deleted :: nat
  document_bucket_deleted :: "bool option"
  iam_role_deleted :: "bool option"

text \<open>
  A value stored in a summary field: a flag or the document count. \<open>value is False\<close>
  holds for the flag \<open>False\<close> only (the integer 0 is not the object \<open>False\<close>).
\<close>

datatype field_value = Flag "bool option" | Count nat

definition dict_items :: "CleanupSummary \<Rightarrow> (string \<times> field_value) list" where
  "dict_items s =
     [(''knowledge_base_deleted'', Flag (knowledge_base_deleted s)),
      (''data_source_deleted'', Flag (data_source_deleted s)),
      (''vector_index_deleted'', Flag (vector_index_deleted s)),
      (''vector_bucket_deleted'', Flag (vector_bucket_deleted s)),
      (''documents_deleted'', Count (documents_deleted s)),
      (''document_bucket_deleted'', Flag (document_bucket_deleted s)),
      (''iam_role_deleted'', Flag (iam_role_deleted s))]"

fun failures_loop :: "(string \<times> field_value) list \<Rightarrow> string list \<Rightarrow> string list" where
  "failures_loop [] failure_keys = failure_keys"
| "failures_loop ((key, v) # items) failure_keys =
     (if key = ''documents_deleted'' then failures_loop items failure_keys
      else if v = Flag (Some False) then failures_loop items (failure_keys @ [key])
      else failures_loop items failure_keys)"

definition failures :: "CleanupSummary \<Rightarrow> string list" where
  "failures s = failures_loop (dict_items s) []"

record DataSourceInfo =
  info_knowledge_base_id :: string
  info_data_source_id :: string
  info_name :: string
  info_configuration :: string
  info_description :: "string option"

text \<open>The two \<open>ValueError\<close> messages are Japanese in the source; the model keeps the setting's name.\<close>

definition resolve_knowledge_base_id :: "env \<Rightarrow> history \<Rightarrow> (exn + string option) \<times> history" where
  "resolve_knowledge_base_id e h =
     (let kb_id = KNOWLEDGE_BASE_ID (settings e) in
      if \<not> truthy kb_id then (Inl (ValueError ''Settings.KNOWLEDGE_BASE_ID''), h)
      else
        (case request (GetKnowledgeBase (the kb_id))
                (get_knowledge_base (bedrock_agent e) h (the kb_id)) h of
           (Inl err, h1) \<Rightarrow>
             if exc_class err = ''ResourceNotFoundException'' then (Inr None, h1)
             else (Inl (ClientError err), h1)
         | (Inr u, h1) \<Rightarrow> (Inr kb_id, h1)))"

definition resolve_data_source ::
  "env \<Rightarrow> string \<Rightarrow> history \<Rightarrow> (exn + DataSourceInfo option) \<times> history" where
  "resolve_data_source e knowledge_base_id h =
     (let data_source_id = DATA_SOURCE_ID (settings e) in
      if \<not> truthy data_source_id then (Inl (ValueError ''Settings.DATA_SOURCE_ID''), h)
      else
        (case request (GetDataSource knowledge_base_id (the data_source_id))
                (get_data_source (bedrock_agent e) h knowledge_base_id (the data_source_id)) h of
           (Inl err, h1) \<Rightarrow>
             if exc_class err = ''ResourceNotFoundException'' then (Inr None, h1)
             else (Inl (ClientError err), h1)
         | (Inr d, h1) \<Rightarrow>
             (Inr (Some \<lparr>info_knowledge_base_id = knowledge_base_id,
                          info_data_source_id = the data_source_id,
                          info_name = ds_name d,
                          info_configuration = dataSourceConfiguration d,
                          info_description = ds_description d\<rparr>), h1)))"

text \<open>
  \<open>delete_data_source\<close>: the update to \<open>RETAIN\<close> swallows every \<open>ClientError\<close>; the delete
  maps not-found to \<open>None\<close>, a conflict to \<open>True\<close> and any other \<open>ClientError\<close> to \<open>False\<close>.
\<close>

definition delete_data_source :: "env \<Rightarrow> DataSourceInfo \<Rightarrow> history \<Rightarrow> bool option \<times> history" where
  "delete_data_source e info h =
     (case request
             (UpdateDataSource (info_knowledge_base_id info) (info_data_source_id info)
                (info_name info) (info_configuration info) ''RETAIN'' (info_description info))
             (update_data_source (bedrock_agent e) h (info_knowledge_base_id info)
                (info_data_source_id info) (info_name info) (info_configuration info) ''RETAIN''
                (info_description info)) h of
        (r, h1) \<Rightarrow>
          (case request (DeleteDataSource (info_knowledge_base_id info) (info_data_source_id info))
                  (delete_data_source_op (bedrock_agent e) h1 (info_knowledge_base_id info)
                     (info_data_source_id info)) h1 of
             (Inl err, h2) \<Rightarrow>
               if exc_class err = ''ResourceNotFoundException'' then (None, h2)
               else if exc_class err = ''ConflictException'' then (Some True, h2)
               else (Some False, h2)
           | (Inr u, h2) \<Rightarrow> (Some True, h2)))"

definition delete_knowledge_base :: "env \<Rightarrow> string \<Rightarrow> history \<Rightarrow> bool option \<times> history" where
  "delete_knowledge_base e knowledge_base_id h =
     (case request (DeleteKnowledgeBase knowledge_base_id)
             (delete_knowledge_base_op (bedrock_agent e) h knowledge_base_id) h of
        (Inl err, h1) \<Rightarrow>
          if exc_class err = ''ResourceNotFoundException'' then (None, h1)
          else if exc_class err = ''ConflictException'' then (Some True, h1)
          else (Some False, h1)
      | (Inr u, h1) \<Rightarrow> (Some True, h1))"

definition delete_vector_index :: "env \<Rightarrow> history \<Rightarrow> bool option \<times> history" where
  "delete_vector_index e h =
     (case request (DeleteIndex (VECTOR_BUCKET_NAME (settings e)) (VECTOR_INDEX_NAME (settings e)))
             (delete_index (s3vectors e) h (VECTOR_BUCKET_NAME (settings e))
                (VECTOR_INDEX_NAME (settings e))) h of
        (Inl err, h1) \<Rightarrow>
          if exc_class err = ''NotFoundException'' then (None, h1)
          else if exc_class err = ''ConflictException'' then (Some False, h1)
          else (Some False, h1)
      | (Inr u, h1) \<Rightarrow> (Some True, h1))"

definition delete_vector_bucket_step :: "env \<Rightarrow> history \<Rightarrow> bool option \<times> history" where
  "delete_vector_bucket_step e h =
     (case request (DeleteVectorBucket (VECTOR_BUCKET_NAME (settings e)))
             (delete_vector_bucket (s3vectors e) h (VECTOR_BUCKET_NAME (settings e))) h of
        (Inl err, h1) \<Rightarrow>
          if exc_class err = ''NotFoundException'' then (None, h1)
          else if exc_class err = ''ConflictException'' then (Some False, h1)
          else (Some False, h1)
      | (Inr u, h1) \<Rightarrow> (Some True, h1))"

definition chunk_delete :: "env \<Rightarrow> string list \<Rightarrow> history \<Rightarrow> (client_error + unit) \<times> history" where
  "chunk_delete e keys h =
     (if keys \<noteq> [] then
        request (DeleteObjects (DOCUMENT_S3_BUCKET (settings e)) keys)
          (delete_objects (s3 e) h (DOCUMENT_S3_BUCKET (settings e)) keys) h
      else (Inr (), h))"

text \<open>
  The \<open>for page in paginator.paginate(...)\<close> loop of \<open>empty_document_bucket\<close>, with the
  counter \<open>deleted\<close>. It ends normally (\<open>None\<close>) or with the \<open>ClientError\<close> that left the
  \<open>try\<close> block, and in both cases hands back the counter.
\<close>

fun purge_pages ::
  "env \<Rightarrow> (client_error + string list) list \<Rightarrow> nat \<Rightarrow> history
    \<Rightarrow> (client_error option \<times> nat) \<times> history" where
  "purge_pages e [] deleted h = ((None, deleted), h)"
| "purge_pages e (page # pages) deleted h =
     (case request (ListObjectsV2 (DOCUMENT_S3_BUCKET (settings e))) page h of
        (Inl err, h1) \<Rightarrow> ((Some err, deleted), h1)
      | (Inr keys, h1) \<Rightarrow>
          if keys = [] then purge_pages e pages deleted h1
          else
            (case chunk_delete e keys h1 of
               (Inl err, h2) \<Rightarrow> ((Some err, deleted), h2)
             | (Inr u, h2) \<Rightarrow> purge_pages e pages (deleted + length keys) h2))"

definition empty_document_bucket :: "env \<Rightarrow> history \<Rightarrow> nat \<times> history" where
  "empty_document_bucket e h =
     (case purge_pages e (list_objects_v2 (s3 e) h (DOCUMENT_S3_BUCKET (settings e))) 0 h of
        ((Some err, deleted), h1) \<Rightarrow>
          if error_code err = ''NoSuchBucket'' then (0, h1) else (deleted, h1)
      | ((None, deleted), h1) \<Rightarrow> (deleted, h1))"

definition delete_document_bucket :: "env \<Rightarrow> history \<Rightarrow> bool option \<times> history" where
  "delete_document_bucket e h =
     (case request (DeleteBucket (DOCUMENT_S3_BUCKET (settings e)))
             (delete_bucket (s3 e) h (DOCUMENT_S3_BUCKET (settings e))) h of
        (Inl err, h1) \<Rightarrow>
          if error_code err = ''NoSuchBucket'' then (None, h1)
          else if error_code err = ''BucketNotEmpty'' then (Some False, h1)
          else (Some False, h1)
      | (Inr u, h1) \<Rightarrow> (Some True, h1))"

text \<open>The two \<open>for\<close> loops of \<open>delete_iam_role\<close>; each stops at the first error.\<close>

fun delete_inline_policies ::
  "env \<Rightarrow> string \<Rightarrow> string list \<Rightarrow> history \<Rightarrow> client_error option \<times> history" where
  "delete_inline_policies e role_name [] h = (None, h)"
| "delete_inline_policies e role_name (policy_name # rest) h =
     (case request (DeleteRolePolicy role_name policy_name)
             (delete_role_policy (iam e) h role_name policy_name) h of
        (Inl err, h1) \<Rightarrow> (Some err, h1)
      | (Inr u, h1) \<Rightarrow> delete_inline_policies e role_name rest h1)"

fun detach_policies ::
  "env \<Rightarrow> string \<Rightarrow> (string \<times> string) list \<Rightarrow> history \<Rightarrow> client_error option \<times> history" where
  "detach_policies e role_name [] h = (None, h)"
| "detach_policies e role_name ((policy_arn, policy_name) # rest) h =
     (case request (DetachRolePolicy role_name policy_arn)
             (detach_role_policy (iam e) h role_name policy_arn) h of
        (Inl err, h1) \<Rightarrow> (Some err, h1)
      | (Inr u, h1) \<Rightarrow> detach_policies e role_name rest h1)"

text \<open>
  Every error of \<open>delete_iam_role\<close> ends in the same two handlers, in the inner \<open>try\<close> or
  the outer one: \<open>NoSuchEntityException\<close> gives \<open>None\<close>, any other \<open>ClientError\<close> gives
  \<open>False\<close>.
\<close>

definition iam_error_result :: "client_error \<Rightarrow> bool option" where
  "iam_error_result err =
     (if exc_class err = ''NoSuchEntityException'' then None else Some False)"

definition delete_iam_role :: "env \<Rightarrow> history \<Rightarrow> bool option \<times> history" where
  "delete_iam_role e h =
     (let role_name = BEDROCK_ROLE_NAME (settings e) in
      case request (ListRolePolicies role_name) (list_role_policies (iam e) h role_name) h of
        (Inl err, h1) \<Rightarrow> (iam_error_result err, h1)
      | (Inr policy_names, h1) \<Rightarrow>
          (case delete_inline_policies e role_name policy_names h1 of
             (Some err, h2) \<Rightarrow> (iam_error_result err, h2)
           | (None, h2) \<Rightarrow>
               (case request (ListAttachedRolePolicies role_name)
                       (list_attached_role_policies (iam e) h2 role_name) h2 of
                  (Inl err, h3) \<Rightarrow> (iam_error_result err, h3)
                | (Inr attached, h3) \<Rightarrow>
                    (case detach_policies e role_name attached h3 of
                       (Some err, h4) \<Rightarrow> (iam_error_result err, h4)
                     | (None, h4) \<Rightarrow>
                         (case request (DeleteRole role_name)
                                 (delete_role (iam e) h4 role_name) h4 of
                            (Inl err, h5) \<Rightarrow> (iam_error_result err, h5)
                          | (Inr u, h5) \<Rightarrow> (Some True, h5))))))"

definition new_summary :: CleanupSummary where
  "new_summary =
     \<lparr>knowledge_base_deleted = None, data_source_deleted = None, vector_index_deleted = None,
      vector_bucket_deleted = None, documents_deleted = 0, document_bucket_deleted = None,
      iam_role_deleted = None\<rparr>"

text \<open>
  The second half of \<open>cleanup_all\<close>, from \<open>delete_vector_index\<close> on: five steps that
  cannot raise, each storing its result in the summary.
\<close>

definition cleanup_storage :: "env \<Rightarrow> CleanupSummary \<Rightarrow> history \<Rightarrow> CleanupSummary \<times> history" where
  "cleanup_storage e summary h =
     (case delete_vector_index e h of (r1, h1) \<Rightarrow>
      case delete_vector_bucket_step e h1 of (r2, h2) \<Rightarrow>
      case empty_document_bucket e h2 of (n, h3) \<Rightarrow>
      case delete_document_bucket e h3 of (r4, h4) \<Rightarrow>
      case delete_iam_role e h4 of (r5, h5) \<Rightarrow>
        (summary\<lparr>vector_index_deleted := r1, vector_bucket_deleted := r2,
                 documents_deleted := n, document_bucket_deleted := r4,
                 iam_role_deleted := r5\<rparr>, h5))"

text \<open>
  \<open>cleanup_all\<close> catches \<open>ValueError\<close> around the two resolve calls and nothing else, so
  any other exception a resolve call raises leaves \<open>cleanup_all\<close>.
\<close>

definition cleanup_all :: "env \<Rightarrow> history \<Rightarrow> (exn + CleanupSummary) \<times> history" where
  "cleanup_all e h =
     (case resolve_knowledge_base_id e h of
        (Inl (ValueError m), h1) \<Rightarrow>
          (case cleanup_storage e (new_summary\<lparr>knowledge_base_deleted := Some False\<rparr>) h1 of
             (s, h') \<Rightarrow> (Inr s, h'))
      | (Inl x, h1) \<Rightarrow> (Inl x, h1)
      | (Inr kb, h1) \<Rightarrow>
          if truthy kb then
            (case resolve_data_source e (the kb) h1 of
               (Inl (ValueError m), h2) \<Rightarrow>
                 (case delete_knowledge_base e (the kb) h2 of (rk, h3) \<Rightarrow>
                  case cleanup_storage e
                         (new_summary\<lparr>data_source_deleted := Some False,
                                      knowledge_base_deleted := rk\<rparr>) h3 of
                    (s, h') \<Rightarrow> (Inr s, h'))
             | (Inl x, h2) \<Rightarrow> (Inl x, h2)
             | (Inr None, h2) \<Rightarrow>
                 (case delete_knowledge_base e (the kb) h2 of (rk, h3) \<Rightarrow>
                  case cleanup_storage e (new_summary\<lparr>knowledge_base_deleted := rk\<rparr>) h3 of
                    (s, h') \<Rightarrow> (Inr s, h'))
             | (Inr (Some info), h2) \<Rightarrow>
                 (case delete_data_source e info h2 of (rd, h3) \<Rightarrow>
                  case delete_knowledge_base e (the kb) h3 of (rk, h4) \<Rightarrow>
                  case cleanup_storage e
                         (new_summary\<lparr>data_source_deleted := rd,
                                      knowledge_base_deleted := rk\<rparr>) h4 of
                    (s, h') \<Rightarrow> (Inr s, h')))
          else
            (case cleanup_storage e new_summary h1 of (s, h') \<Rightarrow> (Inr s, h')))"

definition cleanup_main :: "env \<Rightarrow> string list \<Rightarrow> history \<Rightarrow> (exn + int) \<times> history" where
  "cleanup_main e argv h =
     (case cleanup_all e h of
        (Inl x, h1) \<Rightarrow> (Inl x, h1)
      | (Inr summary, h1) \<Rightarrow> (if failures summary \<noteq> [] then (Inr 1, h1) else (Inr 0, h1)))"

section \<open>infra.py\<close>

definition ensure_document_bucket :: "env \<Rightarrow> history \<Rightarrow> (exn + string) \<times> history" where
  "ensure_document_bucket e h =
     (let bucket = DOCUMENT_S3_BUCKET (settings e);
          arn = ''arn:aws:s3:::'' @ bucket
      in case request (HeadBucket bucket) (head_bucket (s3 e) h bucket) h of
           (Inr u, h1) \<Rightarrow> (Inr arn, h1)
         | (Inl err, h1) \<Rightarrow>
             if error_code err \<notin> {''404'', ''NoSuchBucket'', ''NotFound''} then
               (Inl (ClientError err), h1)
             else
               (let location =
                      (if AWS_REGION (settings e) \<noteq> ''us-east-1''
                       then Some (AWS_REGION (settings e)) else None)
                in case request (CreateBucket bucket location)
                          (create_bucket (s3 e) h1 bucket location) h1 of
                     (Inl err2, h2) \<Rightarrow> (Inl (ClientError err2), h2)
                   | (Inr u, h2) \<Rightarrow> (Inr arn, h2)))"

text \<open>\<open>str.replace("//", "/")\<close>: non-overlapping occurrences, left to right.\<close>

fun replace_double_slash :: "string \<Rightarrow> string" where
  "replace_double_slash (CHR ''/'' # CHR ''/'' # cs) = CHR ''/'' # replace_double_slash cs"
| "replace_double_slash (c # cs) = c # replace_double_slash cs"
| "replace_double_slash [] = []"

text \<open>
  The upload loop over \<open>rglob("*")\<close>. A file is named by its path relative to the root.
  A failed \<open>upload_file\<close> raises boto3's \<open>S3UploadFailedError\<close>.
\<close>

fun upload_loop :: "env \<Rightarrow> (string \<times> bool) list \<Rightarrow> history \<Rightarrow> (exn + unit) \<times> history" where
  "upload_loop e [] h = (Inr (), h)"
| "upload_loop e ((relative_key, is_file) # paths) h =
     (if \<not> is_file then upload_loop e paths h
      else
        (let s3_key = replace_double_slash (DOCUMENT_S3_PREFIX (settings e) @ relative_key)
         in case request (UploadFile relative_key (DOCUMENT_S3_BUCKET (settings e)) s3_key)
                   (upload_file (s3 e) h relative_key (DOCUMENT_S3_BUCKET (settings e)) s3_key)
                   h of
              (Inl err, h1) \<Rightarrow> (Inl (S3UploadFailedError err), h1)
            | (Inr u, h1) \<Rightarrow> upload_loop e paths h1))"

definition upload_sample_documents :: "env \<Rightarrow> history \<Rightarrow> (exn + unit) \<times> history" where
  "upload_sample_documents e h =
     (if \<not> local_dir_exists (fs e) then
        (Inl (FileNotFoundError
                (''Local data directory not found: '' @ LOCAL_DATA_DIR (settings e))), h)
      else upload_loop e (rglob (fs e)) h)"

definition ensure_vector_bucket_and_index ::
  "env \<Rightarrow> history \<Rightarrow> (exn + string \<times> string) \<times> history" where
  "ensure_vector_bucket_and_index e h =
     (let bucket = VECTOR_BUCKET_NAME (settings e);
          index = VECTOR_INDEX_NAME (settings e)
      in case
           (case request (GetVectorBucket bucket) (get_vector_bucket (s3vectors e) h bucket) h of
              (Inr arn, h1) \<Rightarrow> (Inr arn, h1)
            | (Inl err, h1) \<Rightarrow>
                if exc_class err \<noteq> ''NotFoundException'' then (Inl (ClientError err), h1)
                else
                  (case request (CreateVectorBucket bucket)
                          (create_vector_bucket (s3vectors e) h1 bucket) h1 of
                     (Inl err2, h2) \<Rightarrow> (Inl (ClientError err2), h2)
                   | (Inr u, h2) \<Rightarrow>
                       (case request (GetVectorBucket bucket)
                               (get_vector_bucket (s3vectors e) h2 bucket) h2 of
                          (Inl err3, h3) \<Rightarrow> (Inl (ClientError err3), h3)
                        | (Inr arn, h3) \<Rightarrow> (Inr arn, h3)))) of
           (Inl x, h1) \<Rightarrow> (Inl x, h1)
         | (Inr bucket_arn, h1) \<Rightarrow>
             (case request (GetIndex bucket index) (get_index (s3vectors e) h1 bucket index) h1 of
                (Inr index_arn, h2) \<Rightarrow> (Inr (bucket_arn, index_arn), h2)
              | (Inl err, h2) \<Rightarrow>
                  if exc_class err \<noteq> ''NotFoundException'' then (Inl (ClientError err), h2)
                  else
                    (case request
                            (CreateIndex bucket index ''float32''
                               (BEDROCK_EMBEDDING_DIMENSION (settings e)) ''cosine'')
                            (create_index (s3vectors e) h2 bucket index ''float32''
                               (BEDROCK_EMBEDDING_DIMENSION (settings e)) ''cosine'') h2 of
                       (Inl err2, h3) \<Rightarrow> (Inl (ClientError err2), h3)
                     | (Inr u, h3) \<Rightarrow>
                         (case request (GetIndex bucket index)
                                 (get_index (s3vectors e) h3 bucket index) h3 of
                            (Inl err3, h4) \<Rightarrow> (Inl (ClientError err3), h4)
                          | (Inr index_arn, h4) \<Rightarrow> (Inr (bucket_arn, index_arn), h4)))))"

text \<open>
  The policy documents of \<open>ensure_bedrock_kb_role\<close>, as the actions and resources of their
  single \<open>Allow\<close> statement; the trust policy as the service principal it names.
\<close>

definition ensure_bedrock_kb_role ::
  "env \<Rightarrow> string \<Rightarrow> string \<Rightarrow> string \<Rightarrow> history \<Rightarrow> (exn + string) \<times> history" where
  "ensure_bedrock_kb_role e document_bucket_arn bucket_arn index_arn h =
     (let role_name = BEDROCK_ROLE_NAME (settings e) in
      case
        (case request (GetRole role_name) (get_role (iam e) h role_name) h of
           (Inr role_arn, h1) \<Rightarrow> (Inr role_arn, h1)
         | (Inl err, h1) \<Rightarrow>
             if exc_class err \<noteq> ''NoSuchEntityException'' then (Inl (ClientError err), h1)
             else
               (case request
                       (CreateRole role_name (TrustPolicy ''bedrock.amazonaws.com'')
                          ''Role for Bedrock Knowledge Base to access S3 and models'')
                       (create_role (iam e) h1 role_name (TrustPolicy ''bedrock.amazonaws.com'')
                          ''Role for Bedrock Knowledge Base to access S3 and models'') h1 of
                  (Inl err2, h2) \<Rightarrow> (Inl (ClientError err2), h2)
                | (Inr role_arn, h2) \<Rightarrow> (Inr role_arn, h2))) of
        (Inl x, h1) \<Rightarrow> (Inl x, h1)
      | (Inr role_arn, h1) \<Rightarrow>
          (let s3_policy =
                 AllowPolicy [''s3:GetObject'', ''s3:ListBucket'']
                   [document_bucket_arn, document_bucket_arn @ ''/*''];
               s3vectors_resources =
                 [bucket_arn, bucket_arn @ ''/*''] @
                 (if index_arn \<noteq> [] then [index_arn, bucket_arn @ ''/index/*''] else []);
               s3vectors_policy = AllowPolicy [''s3vectors:*''] s3vectors_resources;
               bedrock_policy = AllowPolicy [''bedrock:InvokeModel''] [''*'']
           in case request (PutRolePolicy role_name ''S3Access'' s3_policy)
                     (put_role_policy (iam e) h1 role_name ''S3Access'' s3_policy) h1 of
                (Inl err, h2) \<Rightarrow> (Inl (ClientError err), h2)
              | (Inr u, h2) \<Rightarrow>
                  (case request (PutRolePolicy role_name ''S3VectorsAccess'' s3vectors_policy)
                          (put_role_policy (iam e) h2 role_name ''S3VectorsAccess''
                             s3vectors_policy) h2 of
                     (Inl err, h3) \<Rightarrow> (Inl (ClientError err), h3)
                   | (Inr u, h3) \<Rightarrow>
                       (case request
                               (PutRolePolicy role_name ''BedrockModelAccess'' bedrock_policy)
                               (put_role_policy (iam e) h3 role_name ''BedrockModelAccess''
                                  bedrock_policy) h3 of
                          (Inl err, h4) \<Rightarrow> (Inl (ClientError err), h4)
                        | (Inr u, h4) \<Rightarrow> (Inr role_arn, h4)))))"

text \<open>
  The nested search loops of \<open>get_or_create_knowledge_base\<close> and
  \<open>get_or_create_data_source\<close>: the inner one looks for the name in one page of
  (name, identifier) summaries, the outer one fetches page after page and stops at the first
  hit (\<open>Inr (Some id)\<close>), at an error, or at the end of the listing (\<open>Inr None\<close>).
\<close>

fun find_by_name :: "string \<Rightarrow> (string \<times> string) list \<Rightarrow> string option" where
  "find_by_name name [] = None"
| "find_by_name name ((n, ident) # rest) =
     (if n = name then Some ident else find_by_name name rest)"

fun search_pages ::
  "api_call \<Rightarrow> string \<Rightarrow> (client_error + (string \<times> string) list) list \<Rightarrow> history
    \<Rightarrow> (exn + string option) \<times> history" where
  "search_pages c name [] h = (Inr None, h)"
| "search_pages c name (page # pages) h =
     (case request c page h of
        (Inl err, h1) \<Rightarrow> (Inl (ClientError err), h1)
      | (Inr summaries, h1) \<Rightarrow>
          (case find_by_name name summaries of
             Some ident \<Rightarrow> (Inr (Some ident), h1)
           | None \<Rightarrow> search_pages c name pages h1))"

definition get_or_create_knowledge_base ::
  "env \<Rightarrow> string \<Rightarrow> string \<Rightarrow> string \<Rightarrow> history \<Rightarrow> (exn + string) \<times> history" where
  "get_or_create_knowledge_base e bucket_arn index_arn role_arn h =
     (case search_pages ListKnowledgeBases (KNOWLEDGE_BASE_NAME (settings e))
             (list_knowledge_bases (bedrock_agent e) h) h of
        (Inl x, h1) \<Rightarrow> (Inl x, h1)
      | (Inr (Some ident), h1) \<Rightarrow> (Inr ident, h1)
      | (Inr None, h1) \<Rightarrow>
          (case request
                  (CreateKnowledgeBase (KNOWLEDGE_BASE_NAME (settings e)) role_arn
                     (BEDROCK_EMBEDDING_MODEL_ARN (settings e)) bucket_arn index_arn)
                  (create_knowledge_base (bedrock_agent e) h1 (KNOWLEDGE_BASE_NAME (settings e))
                     role_arn (BEDROCK_EMBEDDING_MODEL_ARN (settings e)) bucket_arn index_arn)
                  h1 of
             (Inl err, h2) \<Rightarrow> (Inl (ClientError err), h2)
           | (Inr ident, h2) \<Rightarrow> (Inr ident, h2)))"

definition get_or_create_data_source ::
  "env \<Rightarrow> string \<Rightarrow> string \<Rightarrow> history \<Rightarrow> (exn + string) \<times> history" where
  "get_or_create_data_source e kb_id document_bucket_arn h =
     (case search_pages (ListDataSources kb_id) ''s3-sample-documents''
             (list_data_sources (bedrock_agent e) h kb_id) h of
        (Inl x, h1) \<Rightarrow> (Inl x, h1)
      | (Inr (Some ident), h1) \<Rightarrow> (Inr ident, h1)
      | (Inr None, h1) \<Rightarrow>
          (case request
                  (CreateDataSource kb_id ''s3-sample-documents''
                     ''Sample documents uploaded from data/input'' document_bucket_arn
                     (DOCUMENT_S3_PREFIX (settings e)))
                  (create_data_source (bedrock_agent e) h1 kb_id ''s3-sample-documents''
                     ''Sample documents uploaded from data/input'' document_bucket_arn
                     (DOCUMENT_S3_PREFIX (settings e))) h1 of
             (Inl err, h2) \<Rightarrow> (Inl (ClientError err), h2)
           | (Inr ident, h2) \<Rightarrow> (Inr ident, h2)))"

text \<open>
  The six \<open>_provision_*\<close> wrappers share one shape: run the step; on any exception print
  the \<open>[FAIL]\<close> line and re-raise; otherwise print the \<open>[SUCCESS]\<close> line and return the
  step's value.
\<close>

definition logged :: "string \<Rightarrow> (exn + 'a) \<times> history \<Rightarrow> (exn + 'a) \<times> history" where
  "logged label r =
     (case r of
        (Inl exc, h1) \<Rightarrow> (Inl exc, h1 @ [Printed (FAIL label exc)])
      | (Inr v, h1) \<Rightarrow> (Inr v, h1 @ [Printed (SUCCESS label)]))"

definition provision_document_bucket :: "env \<Rightarrow> history \<Rightarrow> (exn + string) \<times> history" where
  "provision_document_bucket e h = logged ''document bucket'' (ensure_document_bucket e h)"

definition provision_sample_documents :: "env \<Rightarrow> history \<Rightarrow> (exn + unit) \<times> history" where
  "provision_sample_documents e h =
     logged ''sample document upload'' (upload_sample_documents e h)"

definition provision_bedrock_kb_role ::
  "env \<Rightarrow> string \<Rightarrow> string \<Rightarrow> string \<Rightarrow> history \<Rightarrow> (exn + string) \<times> history" where
  "provision_bedrock_kb_role e document_bucket_arn bucket_arn index_arn h =
     logged ''Bedrock knowledge base role''
       (ensure_bedrock_kb_role e document_bucket_arn bucket_arn index_arn h)"

definition provision_vector_bucket_and_index ::
  "env \<Rightarrow> history \<Rightarrow> (exn + string \<times> string) \<times> history" where
  "provision_vector_bucket_and_index e h =
     logged ''S3 Vectors bucket and index'' (ensure_vector_bucket_and_index e h)"

definition provision_knowledge_base ::
  "env \<Rightarrow> string \<Rightarrow> string \<Rightarrow> string \<Rightarrow> history \<Rightarrow> (exn + string) \<times> history" where
  "provision_knowledge_base e bucket_arn index_arn role_arn h =
     logged ''knowledge base'' (get_or_create_knowledge_base e bucket_arn index_arn role_arn h)"

definition provision_data_source ::
  "env \<Rightarrow> string \<Rightarrow> string \<Rightarrow> history \<Rightarrow> (exn + string) \<times> history" where
  "provision_data_source e kb_id document_bucket_arn h =
     logged ''data source'' (get_or_create_data_source e kb_id document_bucket_arn h)"

record KnowledgeBaseResources =
  knowledge_base_id :: string
  data_source_id :: string
  vector_bucket_arn :: string
  vector_index_arn :: string

definition provision_all :: "env \<Rightarrow> history \<Rightarrow> (exn + KnowledgeBaseResources) \<times> history" where
  "provision_all e h =
     (case provision_document_bucket e h of
        (Inl x, h1) \<Rightarrow> (Inl x, h1)
      | (Inr document_bucket_arn, h1) \<Rightarrow>
     (case provision_sample_documents e h1 of
        (Inl x, h2) \<Rightarrow> (Inl x, h2)
      | (Inr u, h2) \<Rightarrow>
     (case provision_vector_bucket_and_index e h2 of
        (Inl x, h3) \<Rightarrow> (Inl x, h3)
      | (Inr (bucket_arn, index_arn), h3) \<Rightarrow>
     (case provision_bedrock_kb_role e document_bucket_arn bucket_arn index_arn h3 of
        (Inl x, h4) \<Rightarrow> (Inl x, h4)
      | (Inr role_arn, h4) \<Rightarrow>
     (case provision_knowledge_base e bucket_arn index_arn role_arn h4 of
        (Inl x, h5) \<Rightarrow> (Inl x, h5)
      | (Inr kb_id, h5) \<Rightarrow>
     (case provision_data_source e kb_id document_bucket_arn h5 of
        (Inl x, h6) \<Rightarrow> (Inl x, h6)
      | (Inr ds_id, h6) \<Rightarrow>
          (Inr \<lparr>knowledge_base_id = kb_id, data_source_id = ds_id,
                vector_bucket_arn = bucket_arn, vector_index_arn = index_arn\<rparr>, h6)))))))"

section \<open>Observations and test environments\<close>



subsection \<open>Reading a history\<close>

text \<open>
  What a history shows: the status polls, stop requests and sleeps in it, and the lines
  printed.
\<close>

fun is_poll :: "event \<Rightarrow> bool" where
  "is_poll (Request (GetIngestionJob k d j) r) = True"
| "is_poll ev = False"

fun is_stop :: "event \<Rightarrow> bool" where
  "is_stop (Request (StopIngestionJob k d j) r) = True"
| "is_stop ev = False"

fun is_sleep :: "event \<Rightarrow> bool" where
  "is_sleep (Slept d) = True"
| "is_sleep ev = False"

fun printed :: "history \<Rightarrow> line list" where
  "printed [] = []"
| "printed (Printed l # evs) = l # printed evs"
| "printed (ev # evs) = printed evs"

text \<open>
  The jobs a run fetched, recomputed from its history: a response is a function of the
  history before the request, so each successful \<open>GetIngestionJob\<close> request in the new
  events \<open>evs\<close> after \<open>h\<close> determines the job it returned.
\<close>

fun fetched_jobs :: "env \<Rightarrow> history \<Rightarrow> event list \<Rightarrow> job list" where
  "fetched_jobs e h [] = []"
| "fetched_jobs e h (Request (GetIngestionJob k d j) None # evs) =
     (case get_ingestion_job (bedrock_agent e) h k d j of
        Inr jb \<Rightarrow> jb # fetched_jobs e (h @ [Request (GetIngestionJob k d j) None]) evs
      | Inl err \<Rightarrow> fetched_jobs e (h @ [Request (GetIngestionJob k d j) None]) evs)"
| "fetched_jobs e h (ev # evs) = fetched_jobs e (h @ [ev]) evs"

text \<open>
  Running a callback on a list of jobs, one after the other, from state \<open>s\<close>: its final
  state and everything it printed. \<open>line_status\<close> reads the status off a status line.
\<close>

fun feed :: "'s callback \<Rightarrow> job list \<Rightarrow> 's \<Rightarrow> 's \<times> line list" where
  "feed f [] s = (s, [])"
| "feed f (jb # jbs) s =
     (case f (status jb) jb s of
        (s1, out) \<Rightarrow> (case feed f jbs s1 of (s2, out2) \<Rightarrow> (s2, out @ out2)))"

fun line_status :: "line \<Rightarrow> IngestionStatus option" where
  "line_status (StatusLine st a b) = Some st"
| "line_status l = None"

text \<open>
  A callback that only counts how often it is invoked.
\<close>

definition count_calls :: "nat callback" where
  "count_calls st jb n = (Suc n, [])"

subsection \<open>Test environments\<close>

text \<open>
  A service whose every call succeeds, with fixed answers; the job it reports follows a
  script, the n-th poll answering with the n-th job of the list and staying at the last.
\<close>

definition mk_job :: "IngestionStatus \<Rightarrow> string list option \<Rightarrow> job" where
  "mk_job st reasons = \<lparr>ingestionJobId = ''JOB1'', status = st,
     statistics = \<lparr>numberOfDocumentsScanned = Some 2, numberOfNewDocumentsIndexed = Some 2,
        numberOfModifiedDocumentsIndexed = Some 0, numberOfDocumentsFailed = Some 0\<rparr>,
     failureReasons = reasons\<rparr>"

definition scripted :: "job list \<Rightarrow> history \<Rightarrow> client_error + job" where
  "scripted jbs h = Inr (jbs ! min (length (filter is_poll h)) (length jbs - 1))"

definition test_settings :: Settings where
  "test_settings =
     \<lparr>AWS_REGION = ''ap-northeast-1'', DOCUMENT_S3_BUCKET = ''docs'',
      DOCUMENT_S3_PREFIX = ''knowledge-base/documents/'', VECTOR_BUCKET_NAME = ''vectors'',
      VECTOR_INDEX_NAME = ''index'', BEDROCK_EMBEDDING_MODEL_ARN = ''arn:model'',
      BEDROCK_EMBEDDING_DIMENSION = 1024, KNOWLEDGE_BASE_NAME = ''s3-vectors-rag-hands-on'',
      LOCAL_DATA_DIR = ''data/input'', BEDROCK_ROLE_NAME = ''BedrockKnowledgeBaseRole'',
      KNOWLEDGE_BASE_ID = Some ''KB1'', DATA_SOURCE_ID = Some ''DS1''\<rparr>"

definition ok_s3 :: s3_client where
  "ok_s3 =
     \<lparr>head_bucket = (\<lambda>h b. Inr ()),
      create_bucket = (\<lambda>h b l. Inr ()),
      upload_file = (\<lambda>h p b k. Inr ()),
      list_objects_v2 = (\<lambda>h b. [Inr [''a.txt'', ''b.txt'']]),
      delete_objects = (\<lambda>h b ks. Inr ()),
      delete_bucket = (\<lambda>h b. Inr ())\<rparr>"

definition ok_s3vectors :: s3vectors_client where
  "ok_s3vectors =
     \<lparr>get_vector_bucket = (\<lambda>h b. Inr (''arn:aws:s3vectors:::bucket/'' @ b)),
      create_vector_bucket = (\<lambda>h b. Inr ()),
      get_index = (\<lambda>h b i. Inr (''arn:aws:s3vectors:::bucket/'' @ b @ ''/index/'' @ i)),
      create_index = (\<lambda>h b i t d m. Inr ()),
      delete_index = (\<lambda>h b i. Inr ()),
      delete_vector_bucket = (\<lambda>h b. Inr ())\<rparr>"

definition ok_iam :: iam_client where
  "ok_iam =
     \<lparr>get_role = (\<lambda>h r. Inr (''arn:aws:iam:::role/'' @ r)),
      create_role = (\<lambda>h r t d. Inr (''arn:aws:iam:::role/'' @ r)),
      put_role_policy = (\<lambda>h r n p. Inr ()),
      list_role_policies = (\<lambda>h r. Inr [''S3Access'']),
      delete_role_policy = (\<lambda>h r n. Inr ()),
      list_attached_role_policies = (\<lambda>h r. Inr []),
      detach_role_policy = (\<lambda>h r a. Inr ()),
      delete_role = (\<lambda>h r. Inr ())\<rparr>"

definition ok_bedrock :: bedrock_agent_client where
  "ok_bedrock =
     \<lparr>list_knowledge_bases = (\<lambda>h. [Inr []]),
      create_knowledge_base = (\<lambda>h n r m b i. Inr ''KB1''),
      list_data_sources = (\<lambda>h k. [Inr []]),
      create_data_source = (\<lambda>h k n d b p. Inr ''DS1''),
      get_knowledge_base = (\<lambda>h k. Inr ()),
      get_data_source = (\<lambda>h k d. Inr \<lparr>ds_name = ''s3-sample-documents'',
         dataSourceConfiguration = ''S3'', ds_description = None\<rparr>),
      update_data_source = (\<lambda>h k d n c p ds. Inr ()),
      delete_data_source_op = (\<lambda>h k d. Inr ()),
      delete_knowledge_base_op = (\<lambda>h k. Inr ()),
      start_ingestion_job = (\<lambda>h k d t. Inr ''JOB1''),
      get_ingestion_job = (\<lambda>h k d j. scripted [mk_job COMPLETE None] h)\<rparr>"

definition test_env :: env where
  "test_env =
     \<lparr>settings = test_settings, s3 = ok_s3, s3vectors = ok_s3vectors, iam = ok_iam,
      bedrock_agent = ok_bedrock,
      fs = \<lparr>local_dir_exists = True, rglob = [(''a.txt'', True), (''sub'', False), (''sub/b.txt'', True)]\<rparr>,
      uuid4 = (\<lambda>h. ''token'')\<rparr>"

text \<open>
  Variations of that environment for the ingestion poller: the five-status script with the
  history its run produces, a job that never finishes, and a job that completes with a
  failure reason.
\<close>

definition with_jobs :: "job list \<Rightarrow> env" where
  "with_jobs jbs =
     test_env\<lparr>bedrock_agent := ok_bedrock\<lparr>get_ingestion_job := (\<lambda>h k d j. scripted jbs h)\<rparr>\<rparr>"

definition five_jobs :: "job list" where
  "five_jobs = map (\<lambda>st. mk_job st None)
     [STARTING, STARTING, IN_PROGRESS, IN_PROGRESS, COMPLETE]"

definition five_polls :: env where
  "five_polls = with_jobs five_jobs"

definition five_polls_history :: history where
  "five_polls_history =
     [Request (GetIngestionJob ''KB1'' ''DS1'' ''JOB1'') None,
      Printed (StatusLine STARTING ''2'' ''0''), Slept 20,
      Request (GetIngestionJob ''KB1'' ''DS1'' ''JOB1'') None, Slept 20,
      Request (GetIngestionJob ''KB1'' ''DS1'' ''JOB1'') None,
      Printed (StatusLine IN_PROGRESS ''2'' ''0''), Slept 20,
      Request (GetIngestionJob ''KB1'' ''DS1'' ''JOB1'') None, Slept 20,
      Request (GetIngestionJob ''KB1'' ''DS1'' ''JOB1'') None,
      Printed (StatusLine COMPLETE ''2'' ''0'')]"

definition never_done :: env where
  "never_done = with_jobs [mk_job IN_PROGRESS None]"

definition complete_with_failures :: env where
  "complete_with_failures = with_jobs [mk_job COMPLETE (Some [''bad document''])]"

subsection \<open>Reading a teardown history\<close>

text \<open>
  For the document purge: the number of keys in the batch deletes that succeeded, and the
  first error a request met.
\<close>

fun submitted :: "event list \<Rightarrow> nat" where
  "submitted [] = 0"
| "submitted (Request (DeleteObjects b ks) None # evs) = length ks + submitted evs"
| "submitted (ev # evs) = submitted evs"

fun first_error :: "event list \<Rightarrow> client_error option" where
  "first_error [] = None"
| "first_error (Request c (Some err) # evs) = Some err"
| "first_error (ev # evs) = first_error evs"

subsection \<open>Test environments for teardown\<close>

text \<open>
  Environments for teardown: the three delete calls answered with a conflict; the
  knowledge-base lookup denied; the document bucket not empty at its deletion; the bucket
  vanishing between two pages of the listing; a listing interrupted by throttling after
  three keys.
\<close>

definition conflict :: client_error where
  "conflict = ClientErr ''ConflictException'' ''ConflictException''"

definition conflicts_env :: env where
  "conflicts_env =
     test_env\<lparr>bedrock_agent := ok_bedrock\<lparr>delete_data_source_op := (\<lambda>h k d. Inl conflict),
                                           delete_knowledge_base_op := (\<lambda>h k. Inl conflict)\<rparr>,
              s3vectors := ok_s3vectors\<lparr>delete_index := (\<lambda>h b i. Inl conflict)\<rparr>\<rparr>"

definition test_info :: DataSourceInfo where
  "test_info =
     \<lparr>info_knowledge_base_id = ''KB1'', info_data_source_id = ''DS1'',
      info_name = ''s3-sample-documents'', info_configuration = ''S3'',
      info_description = None\<rparr>"

definition access_denied :: client_error where
  "access_denied = ClientErr ''AccessDeniedException'' ''AccessDeniedException''"

definition access_denied_env :: env where
  "access_denied_env =
     test_env\<lparr>bedrock_agent := ok_bedrock\<lparr>get_knowledge_base := (\<lambda>h k. Inl access_denied)\<rparr>\<rparr>"

definition bucket_not_empty_env :: env where
  "bucket_not_empty_env =
     test_env\<lparr>s3 := ok_s3\<lparr>delete_bucket :=
       (\<lambda>h b. Inl (ClientErr ''ClientError'' ''BucketNotEmpty''))\<rparr>\<rparr>"

definition vanished_bucket_env :: env where
  "vanished_bucket_env =
     test_env\<lparr>s3 := ok_s3\<lparr>list_objects_v2 :=
       (\<lambda>h b. [Inr [''a.txt''], Inl (ClientErr ''NoSuchBucket'' ''NoSuchBucket'')])\<rparr>\<rparr>"

definition interrupted_env :: env where
  "interrupted_env =
     test_env\<lparr>s3 := ok_s3\<lparr>list_objects_v2 :=
       (\<lambda>h b. [Inr [''a.txt'', ''b.txt''], Inr [], Inr [''c.txt''],
               Inl (ClientErr ''ClientError'' ''SlowDown'')])\<rparr>\<rparr>"

subsection \<open>Reading a provisioning history\<close>

text \<open>
  For provisioning: the requests that would undo a resource; an event that is a request but
  not such a one (\<open>quiet\<close>); an event that is not such a request (\<open>no_deletion\<close>); the line a
  \<open>_provision_*\<close> wrapper prints for an outcome; and the labels of the six steps in order.
\<close>

fun is_deletion :: "api_call \<Rightarrow> bool" where
  "is_deletion (DeleteObjects b ks) = True"
| "is_deletion (DeleteBucket b) = True"
| "is_deletion (DeleteIndex b i) = True"
| "is_deletion (DeleteVectorBucket b) = True"
| "is_deletion (DeleteRolePolicy r n) = True"
| "is_deletion (DetachRolePolicy r a) = True"
| "is_deletion (DeleteRole r) = True"
| "is_deletion (DeleteDataSource k d) = True"
| "is_deletion (DeleteKnowledgeBase k) = True"
| "is_deletion c = False"

fun quiet :: "event \<Rightarrow> bool" where
  "quiet (Request c r) = (\<not> is_deletion c)"
| "quiet ev = False"

fun no_deletion :: "event \<Rightarrow> bool" where
  "no_deletion (Request c r) = (\<not> is_deletion c)"
| "no_deletion ev = True"

fun marker :: "string \<Rightarrow> exn + 'a \<Rightarrow> line" where
  "marker label (Inl exc) = FAIL label exc"
| "marker label (Inr v) = SUCCESS label"

definition step_labels :: "string list" where
  "step_labels =
     [''document bucket'', ''sample document upload'', ''S3 Vectors bucket and index'',
      ''Bedrock knowledge base role'', ''knowledge base'', ''data source'']"

subsection \<open>Test environments for provisioning\<close>

text \<open>
  Environments for provisioning: another document bucket name; and six failing ones, the
  k-th making step k raise.
\<close>

definition other_docs_env :: env where
  "other_docs_env = test_env\<lparr>settings := test_settings\<lparr>DOCUMENT_S3_BUCKET := ''other-docs''\<rparr>\<rparr>"

definition fail1_env :: env where
  "fail1_env = test_env\<lparr>s3 := ok_s3\<lparr>head_bucket := (\<lambda>h b. Inl (ClientErr ''ClientError'' ''403''))\<rparr>\<rparr>"

definition fail2_env :: env where
  "fail2_env = test_env\<lparr>fs := \<lparr>local_dir_exists = False, rglob = []\<rparr>\<rparr>"

definition fail3_env :: env where
  "fail3_env = test_env\<lparr>s3vectors := ok_s3vectors\<lparr>get_vector_bucket := (\<lambda>h b. Inl access_denied)\<rparr>\<rparr>"

definition fail4_env :: env where
  "fail4_env = test_env\<lparr>iam := ok_iam\<lparr>put_role_policy := (\<lambda>h r n p. Inl access_denied)\<rparr>\<rparr>"

definition fail5_env :: env where
  "fail5_env = test_env\<lparr>bedrock_agent := ok_bedrock\<lparr>create_knowledge_base :=
     (\<lambda>h n r m b i. Inl access_denied)\<rparr>\<rparr>"

definition fail6_env :: env where
  "fail6_env = test_env\<lparr>bedrock_agent := ok_bedrock\<lparr>list_data_sources :=
     (\<lambda>h k. [Inl access_denied])\<rparr>\<rparr>"



section \<open>Facts about the observation functions\<close>

lemma filter_printed [simp]:
  "filter is_poll (map Printed out) = []" "filter is_stop (map Printed out) = []"
  "filter is_sleep (map Printed out) = []"
  by (induction out) auto

lemma printed_append [simp]: "printed (xs @ ys) = printed xs @ printed ys"
  by (induction xs rule: printed.induct) auto

lemma printed_map [simp]: "printed (map Printed out) = out"
  by (induction out) auto

lemma fetched_jobs_append [simp]:
  "fetched_jobs e h (xs @ ys) = fetched_jobs e h xs @ fetched_jobs e (h @ xs) ys"
  by (induction e h xs rule: fetched_jobs.induct) (auto split: sum.splits)

lemma fetched_jobs_map [simp]: "fetched_jobs e h (map Printed out) = []"
  by (induction out arbitrary: h) auto

section \<open>The polling loop\<close>

lemma wait_loop_feed:
  assumes "wait_loop e kb ds j p t (Some f) w s h = Some y"
  shows "\<exists>new. snd (snd y) = h @ new \<and>
           feed f (fetched_jobs e h new) s = (fst (snd y), printed new)"
  apply (rule wait_loop.raw_induct
        [where P = "\<lambda>e kb ds j p t cb w s h y. cb = Some f \<longrightarrow>
            (\<exists>new. snd (snd y) = h @ new \<and>
               feed f (fetched_jobs e h new) s = (fst (snd y), printed new))",
         OF _ assms, rule_format])
  subgoal premises prems
    using prems(2,3)
    apply (auto simp: request_def split: if_splits sum.splits prod.splits option.splits)
    apply (drule prems(1))
    apply auto
    done
  apply simp
  done

lemma wait_loop_prefix:
  assumes "wait_loop e kb ds j p t cb w s h = Some y"
  shows "\<exists>rest. snd (snd y) = h @ rest"
  apply (rule wait_loop.raw_induct
        [where P = "\<lambda>e kb ds j p t cb w s h y. \<exists>rest. snd (snd y) = h @ rest", OF _ assms])
  subgoal premises prems
    using prems(2)
    by (auto simp: request_def split: if_splits sum.splits prod.splits option.splits
             dest!: prems(1))
  done

lemma wait_loop_terminal:
  assumes "wait_loop e kb ds j p t cb w s h = Some y"
  shows "\<forall>jb. fst y = Inr jb \<longrightarrow> terminal (status jb)"
  apply (rule wait_loop.raw_induct
        [where P = "\<lambda>e kb ds j p t cb w s h y. \<forall>jb. fst y = Inr jb \<longrightarrow> terminal (status jb)",
         OF _ assms])
  subgoal premises prems
    using prems(2)
    by (auto simp: request_def split: if_splits sum.splits prod.splits option.splits
             dest!: prems(1))
  done

lemma feed_count_calls: "fst (feed count_calls jbs n) = n + length jbs"
  by (induction jbs arbitrary: n) (auto simp: count_calls_def split: prod.splits)

lemma on_update_step:
  "List.map_filter line_status (snd (feed on_update (jb # jbs) prev)) =
     (if Some (status jb) = prev then [] else [status jb]) @
     List.map_filter line_status (snd (feed on_update jbs (Some (status jb))))"
  by (auto simp: on_update_def Let_def List.map_filter_simps split: prod.splits)

lemma on_update_feed:
  "List.map_filter line_status (snd (feed on_update jbs prev)) =
     (case prev of None \<Rightarrow> remdups_adj (map status jbs)
      | Some p \<Rightarrow> tl (remdups_adj (p # map status jbs)))"
proof (induction jbs arbitrary: prev)
  case Nil
  show ?case by (simp add: List.map_filter_simps split: option.splits)
next
  case (Cons jb jbs)
  show ?case
    unfolding on_update_step Cons.IH
    by (cases prev) (auto simp: remdups_adj_Cons_alt)
qed

lemma on_update_edge:
  "List.map_filter line_status (snd (feed on_update jbs None)) = remdups_adj (map status jbs)"
  by (simp add: on_update_feed)

text \<open>
  Claim C1, as stated, fails. For the polled statuses STARTING, STARTING, IN_PROGRESS,
  IN_PROGRESS, COMPLETE, a callback passed to \<open>wait_for_sync\<close> that only counts its
  invocations ends at 5, not 3: \<open>wait_for_sync\<close> calls \<open>on_update\<close> on every poll.
\<close>

theorem five_polls_fire_five_times:
  "map_option (\<lambda>(r, n, h). n)
     (wait_for_sync five_polls ''KB1'' ''DS1'' ''JOB1'' 20 3600 (Some count_calls) 0 [])
   = Some 5"
  by code_simp

text \<open>
  Claim C1, amended. \<open>wait_for_sync\<close> invokes the callback once for every job it
  fetched, in order, whatever the status: the callback's final state and the lines it printed
  are those of feeding it the fetched jobs one by one, so a counting callback ends at the
  number of fetched jobs. The edge-triggering is in the closure \<open>on_update\<close> of \<open>main\<close>: fed
  a sequence of jobs, it prints one status line per change of status, that is, the statuses
  with adjacent repetitions removed.
\<close>

theorem callback_on_every_poll:
  assumes "wait_for_sync e kb ds j p t (Some f) s h = Some (r, s', h')"
  shows "(\<exists>new. h' = h @ new \<and> feed f (fetched_jobs e h new) s = (s', printed new))
         \<and> fst (feed count_calls jbs n) = n + length jbs
         \<and> List.map_filter line_status (snd (feed on_update jbs None))
             = remdups_adj (map status jbs)"
  using wait_loop_feed[OF assms[unfolded wait_for_sync_def]]
  by (simp add: feed_count_calls on_update_edge)

text \<open>
  Witness for C1 (amended): the five-status run with \<open>on_update\<close> as the callback.
\<close>

theorem callback_on_every_poll_witness:
  "wait_for_sync five_polls ''KB1'' ''DS1'' ''JOB1'' 20 3600 (Some on_update) None []
     = Some (Inr (mk_job COMPLETE None), Some COMPLETE, five_polls_history)
   \<and> ((\<exists>new. five_polls_history = [] @ new \<and>
          feed on_update (fetched_jobs five_polls [] new) None = (Some COMPLETE, printed new))
      \<and> fst (feed count_calls five_jobs 0) = 0 + length five_jobs
      \<and> List.map_filter line_status (snd (feed on_update five_jobs None))
          = remdups_adj (map status five_jobs))"
proof -
  have run: "wait_for_sync five_polls ''KB1'' ''DS1'' ''JOB1'' 20 3600 (Some on_update) None []
     = Some (Inr (mk_job COMPLETE None), Some COMPLETE, five_polls_history)"
    by code_simp
  show ?thesis
    by (rule conjI[OF run callback_on_every_poll[OF run]])
qed

text \<open>
  In that run the fetched jobs are the five scripted ones, and the statuses with adjacent
  repetitions removed are three.
\<close>

lemma five_jobs_facts:
  "fetched_jobs five_polls [] five_polls_history = five_jobs"
  "length five_jobs = 5"
  "remdups_adj (map status five_jobs) = [STARTING, IN_PROGRESS, COMPLETE]"
  by code_simp+



section \<open>Timeout\<close>

lemma sleep_accepts:
  assumes "0 < p" "p \<le> 9000000000"
  shows "sleep_error p = None"
proof -
  have "p * 1000000000 \<le> of_int 9000000000000000000" using assms by simp
  then have up: "\<lceil>p * 1000000000\<rceil> \<le> 9000000000000000000" by (simp only: ceiling_le_iff)
  have "0 \<le> p * 1000000000" using assms by simp
  then have lo: "0 \<le> \<lceil>p * 1000000000\<rceil>" by (simp add: order_trans[OF _ le_of_int_ceiling])
  show ?thesis using assms up lo by (simp add: sleep_error_def Let_def)
qed

text \<open>
  Beyond the range of \<open>time.sleep\<close> the first sleep raises: with a poll interval of 1e10
  seconds the run ends in \<open>OverflowError\<close> after one poll.
\<close>

lemma sleep_overflow_after_first_poll:
  "wait_for_sync never_done ''KB1'' ''DS1'' ''JOB1'' 10000000000 (2 * 10000000000)
     (None :: unit callback option) () []
   = Some (Inl (OverflowError ''timestamp too large to convert to C _PyTime_t''), (),
           [Request (GetIngestionJob ''KB1'' ''DS1'' ''JOB1'') None])"
  by code_simp

lemma wait_loop_step:
  assumes nt: "\<And>h'. \<exists>jb. get_ingestion_job (bedrock_agent e) h' kb ds j = Inr jb
                         \<and> \<not> terminal (status jb)"
    and "sleep_error p = None" "w \<le> t"
  shows "\<exists>s1 out. wait_loop e kb ds j p t cb w s h =
           wait_loop e kb ds j p t cb (w + p) s1
             (h @ Request (GetIngestionJob kb ds j) None # map Printed out @ [Slept p])"
proof -
  from nt obtain jb where jb: "get_ingestion_job (bedrock_agent e) h kb ds j = Inr jb"
    "\<not> terminal (status jb)" by blast
  show ?thesis
  proof (cases cb)
    case None
    have "wait_loop e kb ds j p t cb w s h =
           wait_loop e kb ds j p t cb (w + p) s
             (h @ Request (GetIngestionJob kb ds j) None # map Printed [] @ [Slept p])"
      using assms(2,3) jb None by (subst wait_loop.simps) (simp add: request_def)
    then show ?thesis by blast
  next
    case (Some f)
    obtain s1 out where f: "f (status jb) jb s = (s1, out)" by (cases "f (status jb) jb s")
    have "wait_loop e kb ds j p t cb w s h =
           wait_loop e kb ds j p t cb (w + p) s1
             (h @ Request (GetIngestionJob kb ds j) None # map Printed out @ [Slept p])"
      using assms(2,3) jb Some f by (subst wait_loop.simps) (simp add: request_def)
    then show ?thesis by blast
  qed
qed

lemma wait_loop_timeout:
  "t < w \<Longrightarrow> wait_loop e kb ds j p t cb w s h = Some (Inl (TimeoutError j t), s, h)"
  by (subst wait_loop.simps) simp

text \<open>
  Claim C2, as stated, fails. With a poll interval of 20 and a timeout of 40 = 2 * 20, a job
  that stays IN_PROGRESS is polled 3 times (at waited = 0, 20 and 40, all \<open>\<le> 40\<close>) before the
  timeout error, not 2.
\<close>

theorem never_done_two_polls_false:
  "map_option (\<lambda>(r, s, h). (r, length (filter is_poll h)))
     (wait_for_sync never_done ''KB1'' ''DS1'' ''JOB1'' 20 (2 * 20) (None :: unit callback option) () [])
   = Some (Inl (TimeoutError ''JOB1'' 40), 3)"
  by code_simp

text \<open>
  Claim C2, amended. For a job whose fetched status is never terminal and a poll interval
  \<open>p\<close> that is positive and at most 9e9 seconds (so that \<open>time.sleep\<close> accepts it),
  \<open>wait_for_sync\<close> with timeout \<open>2 * p\<close> returns (it does not loop), performs exactly 3 status
  polls and 3 sleeps, then fails with the timeout error that carries the ingestion job id and
  the configured timeout, and issues no stop request.
\<close>

theorem timeout_after_three_polls:
  assumes nt: "\<And>h'. \<exists>jb. get_ingestion_job (bedrock_agent e) h' kb ds j = Inr jb
                         \<and> \<not> terminal (status jb)"
    and p: "0 < p" and bound: "p \<le> 9000000000"
  shows "\<exists>s' h'. wait_for_sync e kb ds j p (2 * p) cb s h
                   = Some (Inl (TimeoutError j (2 * p)), s', h')
           \<and> length (filter is_poll h') = length (filter is_poll h) + 3
           \<and> length (filter is_sleep h') = length (filter is_sleep h) + 3
           \<and> filter is_stop h' = filter is_stop h"
proof -
  have p0: "sleep_error p = None" using p bound by (rule sleep_accepts)
  obtain s1 o1 where 1: "wait_loop e kb ds j p (2*p) cb 0 s h =
      wait_loop e kb ds j p (2*p) cb (0 + p) s1
        (h @ Request (GetIngestionJob kb ds j) None # map Printed o1 @ [Slept p])"
    using wait_loop_step[OF nt p0, of 0 "2*p" cb s h] p by auto
  let ?h1 = "h @ Request (GetIngestionJob kb ds j) None # map Printed o1 @ [Slept p]"
  obtain s2 o2 where 2: "wait_loop e kb ds j p (2*p) cb (0 + p) s1 ?h1 =
      wait_loop e kb ds j p (2*p) cb (0 + p + p) s2
        (?h1 @ Request (GetIngestionJob kb ds j) None # map Printed o2 @ [Slept p])"
    using wait_loop_step[OF nt p0, of "0 + p" "2*p" cb s1 ?h1] p by auto
  let ?h2 = "?h1 @ Request (GetIngestionJob kb ds j) None # map Printed o2 @ [Slept p]"
  obtain s3 o3 where 3: "wait_loop e kb ds j p (2*p) cb (0 + p + p) s2 ?h2 =
      wait_loop e kb ds j p (2*p) cb (0 + p + p + p) s3
        (?h2 @ Request (GetIngestionJob kb ds j) None # map Printed o3 @ [Slept p])"
    using wait_loop_step[OF nt p0, of "0 + p + p" "2*p" cb s2 ?h2] p by auto
  let ?h3 = "?h2 @ Request (GetIngestionJob kb ds j) None # map Printed o3 @ [Slept p]"
  have 4: "wait_loop e kb ds j p (2*p) cb (0 + p + p + p) s3 ?h3
             = Some (Inl (TimeoutError j (2*p)), s3, ?h3)"
    using p by (intro wait_loop_timeout) simp
  have "wait_for_sync e kb ds j p (2 * p) cb s h = Some (Inl (TimeoutError j (2 * p)), s3, ?h3)"
    unfolding wait_for_sync_def using 1 2 3 4 by simp
  then show ?thesis by (intro exI[of _ s3] exI[of _ ?h3]) simp
qed

text \<open>
  Witness for C2 (amended): the job that stays IN_PROGRESS, polled every 20 with timeout 40.
\<close>

theorem timeout_after_three_polls_witness:
  "(\<forall>h'. \<exists>jb. get_ingestion_job (bedrock_agent never_done) h' ''KB1'' ''DS1'' ''JOB1'' = Inr jb
              \<and> \<not> terminal (status jb))
   \<and> (0::rat) < 20 \<and> (20::rat) \<le> 9000000000
   \<and> (\<exists>s' h'. wait_for_sync never_done ''KB1'' ''DS1'' ''JOB1'' 20 (2 * 20)
                  (None :: unit callback option) () []
                = Some (Inl (TimeoutError ''JOB1'' (2 * 20)), s', h')
           \<and> length (filter is_poll h') = length (filter is_poll []) + 3
           \<and> length (filter is_sleep h') = length (filter is_sleep []) + 3
           \<and> filter is_stop h' = filter is_stop [])"
proof -
  have nt: "\<And>h'. \<exists>jb. get_ingestion_job (bedrock_agent never_done) h' ''KB1'' ''DS1'' ''JOB1''
                     = Inr jb \<and> \<not> terminal (status jb)"
    by (simp add: never_done_def with_jobs_def test_env_def scripted_def mk_job_def terminal_def)
  have p: "(0::rat) < 20" and b: "(20::rat) \<le> 9000000000" by simp_all
  from timeout_after_three_polls[OF nt p b, of None "()" "[]"] nt p b show ?thesis by blast
qed

section \<open>The first poll\<close>

text \<open>
  Claim C9. For every timeout \<open>\<ge> 0\<close>, zero included: whenever \<open>wait_for_sync\<close> returns, with a
  timeout error or anything else, the first thing it did was a status fetch; and if the first
  fetched status is terminal it returns that job at once, having added to the history only
  the fetch and what the callback printed, no sleep.
\<close>

theorem first_poll_before_timeout:
  assumes t: "0 \<le> t"
  shows "(wait_for_sync e kb ds j p t cb s h = Some (r, s', h') \<longrightarrow>
            (\<exists>c rest. h' = h @ Request (GetIngestionJob kb ds j) c # rest))
       \<and> (get_ingestion_job (bedrock_agent e) h kb ds j = Inr jb \<longrightarrow> terminal (status jb) \<longrightarrow>
            (\<exists>s1 out. wait_for_sync e kb ds j p t cb s h
                = Some (Inr jb, s1, h @ Request (GetIngestionJob kb ds j) None # map Printed out)
              \<and> filter is_sleep (Request (GetIngestionJob kb ds j) None # map Printed out) = []))"
proof (intro conjI impI)
  assume run: "wait_for_sync e kb ds j p t cb s h = Some (r, s', h')"
  show "\<exists>c rest. h' = h @ Request (GetIngestionJob kb ds j) c # rest"
  proof (cases "get_ingestion_job (bedrock_agent e) h kb ds j")
    case (Inl err)
    then have "h' = h @ [Request (GetIngestionJob kb ds j) (Some err)]"
      using run t unfolding wait_for_sync_def
      by (subst (asm) wait_loop.simps) (simp add: request_def)
    then show ?thesis by blast
  next
    case (Inr jb)
    obtain s2 out where cb:
      "(case cb of None \<Rightarrow> (s, h @ [Request (GetIngestionJob kb ds j) None])
        | Some f \<Rightarrow> (case f (status jb) jb s of
            (s', out) \<Rightarrow> (s', (h @ [Request (GetIngestionJob kb ds j) None]) @ map Printed out)))
       = (s2, h @ Request (GetIngestionJob kb ds j) None # map Printed out)"
    proof (cases cb)
      case None
      then show ?thesis using that[of s "[]"] by simp
    next
      case (Some f)
      obtain s1 o1 where "f (status jb) jb s = (s1, o1)" by (cases "f (status jb) jb s")
      then show ?thesis using that[of s1 o1] Some by simp
    qed
    let ?h2 = "h @ Request (GetIngestionJob kb ds j) None # map Printed out"
    consider "h' = ?h2"
      | "wait_loop e kb ds j p t cb (0 + p) s2 (?h2 @ [Slept p]) = Some (r, s', h')"
      using run t Inr cb unfolding wait_for_sync_def
      by (subst (asm) wait_loop.simps) (auto simp: request_def split: if_splits option.splits)
    then show ?thesis
    proof cases
      case 1
      then show ?thesis by blast
    next
      case 2
      from wait_loop_prefix[OF 2] obtain rest where "h' = (?h2 @ [Slept p]) @ rest" by auto
      then show ?thesis by simp
    qed
  qed
next
  assume jb: "get_ingestion_job (bedrock_agent e) h kb ds j = Inr jb" "terminal (status jb)"
  show "\<exists>s1 out. wait_for_sync e kb ds j p t cb s h
                = Some (Inr jb, s1, h @ Request (GetIngestionJob kb ds j) None # map Printed out)
              \<and> filter is_sleep (Request (GetIngestionJob kb ds j) None # map Printed out) = []"
  proof (cases cb)
    case None
    have "wait_for_sync e kb ds j p t cb s h
            = Some (Inr jb, s, h @ Request (GetIngestionJob kb ds j) None # map Printed [])"
      unfolding wait_for_sync_def using t jb None
      by (subst wait_loop.simps) (simp add: request_def)
    then show ?thesis by (intro exI[of _ s] exI[of _ "[]"]) simp
  next
    case (Some f)
    obtain s1 out where f: "f (status jb) jb s = (s1, out)" by (cases "f (status jb) jb s")
    have "wait_for_sync e kb ds j p t cb s h
            = Some (Inr jb, s1, h @ Request (GetIngestionJob kb ds j) None # map Printed out)"
      unfolding wait_for_sync_def using t jb Some f
      by (subst wait_loop.simps) (simp add: request_def)
    then show ?thesis by (intro exI[of _ s1] exI[of _ out]) simp
  qed
qed

text \<open>
  Witness for C9: timeout 0 and a job that is COMPLETE at the first poll.
\<close>

theorem first_poll_before_timeout_witness:
  "(0::rat) \<le> 0
   \<and> wait_for_sync test_env ''KB1'' ''DS1'' ''JOB1'' 20 0 (None :: unit callback option) () []
       = Some (Inr (mk_job COMPLETE None), (),
               [Request (GetIngestionJob ''KB1'' ''DS1'' ''JOB1'') None])
   \<and> (\<exists>c rest. [Request (GetIngestionJob ''KB1'' ''DS1'' ''JOB1'') None]
                  = [] @ Request (GetIngestionJob ''KB1'' ''DS1'' ''JOB1'') c # rest)
   \<and> get_ingestion_job (bedrock_agent test_env) [] ''KB1'' ''DS1'' ''JOB1''
       = Inr (mk_job COMPLETE None)
   \<and> terminal (status (mk_job COMPLETE None))
   \<and> (\<exists>s1 out. wait_for_sync test_env ''KB1'' ''DS1'' ''JOB1'' 20 0
                    (None :: unit callback option) () []
          = Some (Inr (mk_job COMPLETE None), s1,
                  [] @ Request (GetIngestionJob ''KB1'' ''DS1'' ''JOB1'') None # map Printed out)
        \<and> filter is_sleep
             (Request (GetIngestionJob ''KB1'' ''DS1'' ''JOB1'') None # map Printed out) = [])"
proof -
  have t: "(0::rat) \<le> 0" by simp
  have run: "wait_for_sync test_env ''KB1'' ''DS1'' ''JOB1'' 20 0 (None :: unit callback option) () []
       = Some (Inr (mk_job COMPLETE None), (),
               [Request (GetIngestionJob ''KB1'' ''DS1'' ''JOB1'') None])"
    by code_simp
  have get: "get_ingestion_job (bedrock_agent test_env) [] ''KB1'' ''DS1'' ''JOB1''
       = Inr (mk_job COMPLETE None)"
    by code_simp
  have tm: "terminal (status (mk_job COMPLETE None))"
    by code_simp
  from first_poll_before_timeout[OF t, of test_env "''KB1''" "''DS1''" "''JOB1''" 20 None "()" "[]"
      "Inr (mk_job COMPLETE None)" "()" "[Request (GetIngestionJob ''KB1'' ''DS1'' ''JOB1'') None]"
      "mk_job COMPLETE None"]
  have "(\<exists>c rest. [Request (GetIngestionJob ''KB1'' ''DS1'' ''JOB1'') None]
                  = [] @ Request (GetIngestionJob ''KB1'' ''DS1'' ''JOB1'') c # rest)"
    and "(\<exists>s1 out. wait_for_sync test_env ''KB1'' ''DS1'' ''JOB1'' 20 0
                    (None :: unit callback option) () []
          = Some (Inr (mk_job COMPLETE None), s1,
                  [] @ Request (GetIngestionJob ''KB1'' ''DS1'' ''JOB1'') None # map Printed out)
        \<and> filter is_sleep
             (Request (GetIngestionJob ''KB1'' ''DS1'' ''JOB1'') None # map Printed out) = [])"
    using run get tm by blast+
  then show ?thesis using t run get tm by blast
qed

section \<open>Exit status of the sync script\<close>

text \<open>
  Claim C8. When \<open>wait_for_sync\<close> returns a job to \<open>main\<close>, that job is terminal, and
  \<open>main\<close> exits with status 0 if the status is COMPLETE and the failure-reasons list is empty
  (missing, null or \<open>[]\<close>) and with status 1 in every other case: FAILED, STOPPED, or COMPLETE
  with failure reasons. No exception is involved: the outcome is \<open>SystemExit\<close> with the code.
\<close>

theorem exit_status_classification:
  assumes kb: "truthy (KNOWLEDGE_BASE_ID (settings e))"
    and ds: "truthy (DATA_SOURCE_ID (settings e))"
    and start: "start_sync e (the (KNOWLEDGE_BASE_ID (settings e))) (the (DATA_SOURCE_ID (settings e)))
                  (h @ [Printed (StartingLine (the (KNOWLEDGE_BASE_ID (settings e)))
                                   (the (DATA_SOURCE_ID (settings e))))])
                = (Inr jid, h1)"
    and wait: "wait_for_sync e (the (KNOWLEDGE_BASE_ID (settings e)))
                  (the (DATA_SOURCE_ID (settings e))) jid 20 3600 (Some on_update) None
                  (h1 @ [Printed (StartedLine jid)])
                = Some (Inr jb, ls, h2)"
  shows "terminal (status jb)
       \<and> (\<exists>h'. sync_main e h =
             Some (SystemExit (if status jb = COMPLETE
                                  \<and> (failureReasons jb = None \<or> failureReasons jb = Some [])
                               then 0 else 1), h'))"
proof
  from wait_loop_terminal[OF wait[unfolded wait_for_sync_def]]
  show "terminal (status jb)" by simp
next
  show "\<exists>h'. sync_main e h =
             Some (SystemExit (if status jb = COMPLETE
                                  \<and> (failureReasons jb = None \<or> failureReasons jb = Some [])
                               then 0 else 1), h')"
    using kb ds start wait
    by (auto simp: sync_main_def Let_def exit_code_of_def split: option.splits)
qed

text \<open>
  Witness for C8: a job that is COMPLETE with one failure reason; exit status 1.
\<close>

theorem exit_status_classification_witness:
  "truthy (KNOWLEDGE_BASE_ID (settings complete_with_failures))
   \<and> truthy (DATA_SOURCE_ID (settings complete_with_failures))
   \<and> start_sync complete_with_failures ''KB1'' ''DS1'' [Printed (StartingLine ''KB1'' ''DS1'')]
       = (Inr ''JOB1'', [Printed (StartingLine ''KB1'' ''DS1''),
                          Request (StartIngestionJob ''KB1'' ''DS1'' ''token'') None])
   \<and> wait_for_sync complete_with_failures ''KB1'' ''DS1'' ''JOB1'' 20 3600 (Some on_update) None
         [Printed (StartingLine ''KB1'' ''DS1''),
          Request (StartIngestionJob ''KB1'' ''DS1'' ''token'') None,
          Printed (StartedLine ''JOB1'')]
       = Some (Inr (mk_job COMPLETE (Some [''bad document''])), Some COMPLETE,
               [Printed (StartingLine ''KB1'' ''DS1''),
                Request (StartIngestionJob ''KB1'' ''DS1'' ''token'') None,
                Printed (StartedLine ''JOB1''),
                Request (GetIngestionJob ''KB1'' ''DS1'' ''JOB1'') None,
                Printed (StatusLine COMPLETE ''2'' ''0'')])
   \<and> terminal (status (mk_job COMPLETE (Some [''bad document''])))
   \<and> (\<exists>h'. sync_main complete_with_failures [] = Some (SystemExit 1, h'))"
proof -
  have kb: "truthy (KNOWLEDGE_BASE_ID (settings complete_with_failures))"
    and ds: "truthy (DATA_SOURCE_ID (settings complete_with_failures))"
    by code_simp+
  have ids: "the (KNOWLEDGE_BASE_ID (settings complete_with_failures)) = ''KB1''"
    "the (DATA_SOURCE_ID (settings complete_with_failures)) = ''DS1''"
    by code_simp+
  have start: "start_sync complete_with_failures ''KB1'' ''DS1''
         ([] @ [Printed (StartingLine ''KB1'' ''DS1'')])
       = (Inr ''JOB1'', [Printed (StartingLine ''KB1'' ''DS1''),
                          Request (StartIngestionJob ''KB1'' ''DS1'' ''token'') None])"
    by code_simp
  have wait: "wait_for_sync complete_with_failures ''KB1'' ''DS1'' ''JOB1'' 20 3600
         (Some on_update) None
         ([Printed (StartingLine ''KB1'' ''DS1''),
           Request (StartIngestionJob ''KB1'' ''DS1'' ''token'') None]
          @ [Printed (StartedLine ''JOB1'')])
       = Some (Inr (mk_job COMPLETE (Some [''bad document''])), Some COMPLETE,
               [Printed (StartingLine ''KB1'' ''DS1''),
                Request (StartIngestionJob ''KB1'' ''DS1'' ''token'') None,
                Printed (StartedLine ''JOB1''),
                Request (GetIngestionJob ''KB1'' ''DS1'' ''JOB1'') None,
                Printed (StatusLine COMPLETE ''2'' ''0'')])"
    by code_simp
  have fr: "failureReasons (mk_job COMPLETE (Some [''bad document''])) = Some [''bad document'']"
    by (simp add: mk_job_def)
  from exit_status_classification[OF kb ds start[folded ids] wait[folded ids]]
  have "terminal (status (mk_job COMPLETE (Some [''bad document''])))"
    and "\<exists>h'. sync_main complete_with_failures [] = Some (SystemExit 1, h')"
    by (simp_all add: fr)
  then show ?thesis using kb ds start wait by simp
qed



section \<open>Teardown\<close>


lemma submitted_append [simp]: "submitted (xs @ ys) = submitted xs + submitted ys"
  by (induction xs rule: submitted.induct) auto

lemma first_error_append [simp]:
  "first_error (xs @ ys) = (case first_error xs of None \<Rightarrow> first_error ys | Some err \<Rightarrow> Some err)"
  by (induction xs rule: first_error.induct) auto

lemma purge_pages_spec:
  "purge_pages e pages d h = ((r, d'), h') \<Longrightarrow>
     \<exists>new. h' = h @ new \<and> d' = d + submitted new \<and> r = first_error new
       \<and> (\<forall>b ks c. Request (DeleteObjects b ks) c \<in> set new \<longrightarrow> ks \<noteq> [])"
proof (induction pages arbitrary: d h)
  case Nil
  then show ?case by simp
next
  case (Cons page pages)
  show ?case
  proof (cases page)
    case (Inl err)
    with Cons.prems show ?thesis by (auto simp: request_def)
  next
    case (Inr keys)
    show ?thesis
    proof (cases "keys = []")
      case True
      with Cons.prems Inr
      have "purge_pages e pages d (h @ [Request (ListObjectsV2 (DOCUMENT_S3_BUCKET (settings e))) None])
              = ((r, d'), h')"
        by (simp add: request_def)
      from Cons.IH[OF this] show ?thesis by auto
    next
      case False
      show ?thesis
      proof (cases "delete_objects (s3 e)
                      (h @ [Request (ListObjectsV2 (DOCUMENT_S3_BUCKET (settings e))) None])
                      (DOCUMENT_S3_BUCKET (settings e)) keys")
        case (Inl err)
        with Cons.prems Inr False show ?thesis
          by (auto simp: request_def chunk_delete_def)
      next
        case (Inr u)
        with Cons.prems \<open>page = Inr keys\<close> False
        have "purge_pages e pages (d + length keys)
                (h @ [Request (ListObjectsV2 (DOCUMENT_S3_BUCKET (settings e))) None,
                      Request (DeleteObjects (DOCUMENT_S3_BUCKET (settings e)) keys) None])
              = ((r, d'), h')"
          by (simp add: request_def chunk_delete_def)
        from Cons.IH[OF this] obtain new where new:
          "h' = (h @ [Request (ListObjectsV2 (DOCUMENT_S3_BUCKET (settings e))) None,
                      Request (DeleteObjects (DOCUMENT_S3_BUCKET (settings e)) keys) None]) @ new"
          "d' = d + length keys + submitted new" "r = first_error new"
          "\<forall>b ks c. Request (DeleteObjects b ks) c \<in> set new \<longrightarrow> ks \<noteq> []"
          by blast
        let ?new = "[Request (ListObjectsV2 (DOCUMENT_S3_BUCKET (settings e))) None,
                     Request (DeleteObjects (DOCUMENT_S3_BUCKET (settings e)) keys) None] @ new"
        have "h' = h @ ?new" "d' = d + submitted ?new" "r = first_error ?new"
          "\<forall>b ks c. Request (DeleteObjects b ks) c \<in> set ?new \<longrightarrow> ks \<noteq> []"
          using new False by auto
        then show ?thesis by blast
      qed
    qed
  qed
qed

lemma cleanup_all_through_storage:
  "cleanup_all e h = (Inr s, h') \<Longrightarrow> \<exists>s0 h0. cleanup_storage e s0 h0 = (s, h')"
  unfolding cleanup_all_def
  by (auto split: prod.splits sum.splits exn.splits if_splits option.splits)

text \<open>
  Claim C5. \<open>failures()\<close> returns, in field order, exactly the names of the six flag fields
  whose value is \<open>False\<close>; the count \<open>documents_deleted\<close> plays no part in it; and when
  \<open>cleanup_all\<close> returns a summary, \<open>main\<close> returns exit status 1 if that list is non-empty
  and 0 otherwise.
\<close>

theorem failures_exit_status:
  "failures s = map fst (filter (\<lambda>(k, v). v = Some False)
       [(''knowledge_base_deleted'', knowledge_base_deleted s),
        (''data_source_deleted'', data_source_deleted s),
        (''vector_index_deleted'', vector_index_deleted s),
        (''vector_bucket_deleted'', vector_bucket_deleted s),
        (''document_bucket_deleted'', document_bucket_deleted s),
        (''iam_role_deleted'', iam_role_deleted s)])
   \<and> failures (s\<lparr>documents_deleted := n\<rparr>) = failures s
   \<and> (cleanup_all e h = (Inr s, h1) \<longrightarrow>
        cleanup_main e argv h = (Inr (if failures s = [] then 0 else 1), h1))"
  by (simp add: failures_def dict_items_def cleanup_main_def)

text \<open>
  Witness for C5: the document bucket cannot be deleted (BucketNotEmpty); the summary has
  that one flag \<open>False\<close> and the exit status is 1.
\<close>

theorem failures_exit_status_witness:
  "\<exists>s h1. cleanup_all bucket_not_empty_env [] = (Inr s, h1)
       \<and> failures s = [''document_bucket_deleted'']
       \<and> cleanup_main bucket_not_empty_env [] [] = (Inr 1, h1)"
proof -
  have "fst (cleanup_all bucket_not_empty_env []) =
      Inr \<lparr>knowledge_base_deleted = Some True, data_source_deleted = Some True,
           vector_index_deleted = Some True, vector_bucket_deleted = Some True,
           documents_deleted = 2, document_bucket_deleted = Some False,
           iam_role_deleted = Some True\<rparr>"
    by code_simp
  then obtain h1 where run: "cleanup_all bucket_not_empty_env [] =
      (Inr \<lparr>knowledge_base_deleted = Some True, data_source_deleted = Some True,
           vector_index_deleted = Some True, vector_bucket_deleted = Some True,
           documents_deleted = 2, document_bucket_deleted = Some False,
           iam_role_deleted = Some True\<rparr>, h1)"
    by (cases "cleanup_all bucket_not_empty_env []") auto
  let ?s = "\<lparr>knowledge_base_deleted = Some True, data_source_deleted = Some True,
           vector_index_deleted = Some True, vector_bucket_deleted = Some True,
           documents_deleted = 2, document_bucket_deleted = Some False,
           iam_role_deleted = Some True\<rparr>"
  from failures_exit_status[of ?s 0 bucket_not_empty_env "[]" h1 "[]"] run
  have "failures ?s = [''document_bucket_deleted'']"
    and "cleanup_main bucket_not_empty_env [] [] = (Inr 1, h1)"
    by simp_all
  with run show ?thesis by blast
qed

text \<open>
  Claim C7. When the delete call fails with a conflict, \<open>delete_data_source\<close> and
  \<open>delete_knowledge_base\<close> return \<open>True\<close> and \<open>delete_vector_index\<close> returns \<open>False\<close>; in each
  case the failed delete request is the last thing the step does, so it is not retried.
\<close>

theorem conflict_outcomes:
  "(request (UpdateDataSource (info_knowledge_base_id info) (info_data_source_id info)
               (info_name info) (info_configuration info) ''RETAIN'' (info_description info))
      (update_data_source (bedrock_agent e) h (info_knowledge_base_id info)
         (info_data_source_id info) (info_name info) (info_configuration info) ''RETAIN''
         (info_description info)) h = (r, h1)
    \<and> delete_data_source_op (bedrock_agent e) h1 (info_knowledge_base_id info)
         (info_data_source_id info) = Inl err
    \<and> exc_class err = ''ConflictException''
    \<longrightarrow> delete_data_source e info h =
          (Some True,
           h1 @ [Request (DeleteDataSource (info_knowledge_base_id info)
                            (info_data_source_id info)) (Some err)]))
   \<and> (delete_knowledge_base_op (bedrock_agent e) h kb = Inl err
      \<and> exc_class err = ''ConflictException''
      \<longrightarrow> delete_knowledge_base e kb h =
            (Some True, h @ [Request (DeleteKnowledgeBase kb) (Some err)]))
   \<and> (delete_index (s3vectors e) h (VECTOR_BUCKET_NAME (settings e))
        (VECTOR_INDEX_NAME (settings e)) = Inl err
      \<and> exc_class err = ''ConflictException''
      \<longrightarrow> delete_vector_index e h =
            (Some False,
             h @ [Request (DeleteIndex (VECTOR_BUCKET_NAME (settings e))
                             (VECTOR_INDEX_NAME (settings e))) (Some err)]))"
  by (auto simp: delete_data_source_def delete_knowledge_base_def delete_vector_index_def
        request_def)

text \<open>
  Witness for C7: a service that answers the three delete calls with a conflict.
\<close>

theorem conflict_outcomes_witness:
  "request (UpdateDataSource ''KB1'' ''DS1'' ''s3-sample-documents'' ''S3'' ''RETAIN'' None)
      (update_data_source (bedrock_agent conflicts_env) [] ''KB1'' ''DS1''
         ''s3-sample-documents'' ''S3'' ''RETAIN'' None) []
     = (Inr (), [Request (UpdateDataSource ''KB1'' ''DS1'' ''s3-sample-documents'' ''S3''
                            ''RETAIN'' None) None])
   \<and> delete_data_source_op (bedrock_agent conflicts_env)
        [Request (UpdateDataSource ''KB1'' ''DS1'' ''s3-sample-documents'' ''S3''
                    ''RETAIN'' None) None] ''KB1'' ''DS1'' = Inl conflict
   \<and> delete_knowledge_base_op (bedrock_agent conflicts_env) [] ''KB1'' = Inl conflict
   \<and> delete_index (s3vectors conflicts_env) [] ''vectors'' ''index'' = Inl conflict
   \<and> exc_class conflict = ''ConflictException''
   \<and> delete_data_source conflicts_env test_info [] =
       (Some True,
        [Request (UpdateDataSource ''KB1'' ''DS1'' ''s3-sample-documents'' ''S3''
                    ''RETAIN'' None) None,
         Request (DeleteDataSource ''KB1'' ''DS1'') (Some conflict)])
   \<and> delete_knowledge_base conflicts_env ''KB1'' [] =
       (Some True, [Request (DeleteKnowledgeBase ''KB1'') (Some conflict)])
   \<and> delete_vector_index conflicts_env [] =
       (Some False, [Request (DeleteIndex ''vectors'' ''index'') (Some conflict)])"
proof -
  have sel: "info_knowledge_base_id test_info = ''KB1''" "info_data_source_id test_info = ''DS1''"
    "info_name test_info = ''s3-sample-documents''" "info_configuration test_info = ''S3''"
    "info_description test_info = None"
    "VECTOR_BUCKET_NAME (settings conflicts_env) = ''vectors''"
    "VECTOR_INDEX_NAME (settings conflicts_env) = ''index''"
    by code_simp+
  have upd: "request (UpdateDataSource ''KB1'' ''DS1'' ''s3-sample-documents'' ''S3'' ''RETAIN'' None)
      (update_data_source (bedrock_agent conflicts_env) [] ''KB1'' ''DS1''
         ''s3-sample-documents'' ''S3'' ''RETAIN'' None) []
     = (Inr (), [Request (UpdateDataSource ''KB1'' ''DS1'' ''s3-sample-documents'' ''S3''
                            ''RETAIN'' None) None])"
    by code_simp
  have ds: "delete_data_source_op (bedrock_agent conflicts_env)
        [Request (UpdateDataSource ''KB1'' ''DS1'' ''s3-sample-documents'' ''S3''
                    ''RETAIN'' None) None] ''KB1'' ''DS1'' = Inl conflict"
    and kb: "delete_knowledge_base_op (bedrock_agent conflicts_env) [] ''KB1'' = Inl conflict"
    and ix: "delete_index (s3vectors conflicts_env) [] ''vectors'' ''index'' = Inl conflict"
    and cls: "exc_class conflict = ''ConflictException''"
    by code_simp+
  from conflict_outcomes[of test_info conflicts_env "[]" "Inr ()"
      "[Request (UpdateDataSource ''KB1'' ''DS1'' ''s3-sample-documents'' ''S3''
                    ''RETAIN'' None) None]" conflict "''KB1''"]
  show ?thesis
    unfolding sel using upd ds kb ix cls by simp
qed

text \<open>
  Claim C4 fails on the code at this input: \<open>KNOWLEDGE_BASE_ID\<close> is configured and
  \<open>get_knowledge_base\<close> answers with an access-denied error. \<open>resolve_knowledge_base_id\<close>
  catches only the not-found exception and \<open>cleanup_all\<close> only \<open>ValueError\<close>, so the
  \<open>ClientError\<close> leaves \<open>cleanup_all\<close> after that single request: no summary is returned and no
  other resource is attempted.
\<close>

theorem cleanup_all_raises_on_access_denied:
  "cleanup_all access_denied_env [] =
     (Inl (ClientError access_denied),
      [Request (GetKnowledgeBase ''KB1'') (Some access_denied)])"
  by code_simp

text \<open>
  Claim C10 fails on the code at this input. One page with one key is listed and its batch
  delete succeeds; fetching the next page raises a \<open>ClientError\<close> with code NoSuchBucket.
  \<open>empty_document_bucket\<close> returns 0 although one key was submitted for deletion and
  deleted: the NoSuchBucket handler returns the literal 0 where the handler for every other
  \<open>ClientError\<close>, two lines below, returns the counter \<open>deleted\<close>.
\<close>

theorem no_such_bucket_midway_returns_zero:
  "fst (empty_document_bucket vanished_bucket_env []) = 0
   \<and> snd (empty_document_bucket vanished_bucket_env []) =
       [Request (ListObjectsV2 ''docs'') None,
        Request (DeleteObjects ''docs'' [''a.txt'']) None,
        Request (ListObjectsV2 ''docs'') (Some (ClientErr ''NoSuchBucket'' ''NoSuchBucket''))]
   \<and> submitted (snd (empty_document_bucket vanished_bucket_env [])) = 1"
  by code_simp

text \<open>
  Away from that error the count is the one the claim describes. In a purge that meets no
  NoSuchBucket error, ended by another service error or not at all, the value returned is
  the number of keys in the batch deletes that succeeded. No batch delete is ever issued
  with an empty key list. The value returned is what the summary's \<open>documents_deleted\<close>
  holds, whatever \<open>delete_document_bucket\<close> returns afterwards, and every summary
  \<open>cleanup_all\<close> returns has gone through that step.
\<close>

lemma purged_count_without_no_such_bucket:
  "(empty_document_bucket e h = (n, h') \<longrightarrow>
      (\<exists>new. h' = h @ new
         \<and> ((\<forall>err. first_error new = Some err \<longrightarrow> error_code err \<noteq> ''NoSuchBucket'')
              \<longrightarrow> n = submitted new)
         \<and> (\<forall>b ks c. Request (DeleteObjects b ks) c \<in> set new \<longrightarrow> ks \<noteq> [])))
   \<and> documents_deleted (fst (cleanup_storage e summary h)) =
       fst (empty_document_bucket e
              (snd (delete_vector_bucket_step e (snd (delete_vector_index e h)))))
   \<and> (cleanup_all e h = (Inr s, h2) \<longrightarrow> (\<exists>s0 h0. cleanup_storage e s0 h0 = (s, h2)))"
proof (intro conjI impI)
  assume run: "empty_document_bucket e h = (n, h')"
  obtain r d h1 where pp:
    "purge_pages e (list_objects_v2 (s3 e) h (DOCUMENT_S3_BUCKET (settings e))) 0 h = ((r, d), h1)"
    by (metis surj_pair)
  from purge_pages_spec[OF pp] obtain new where new: "h1 = h @ new" "d = submitted new"
    "r = first_error new" "\<forall>b ks c. Request (DeleteObjects b ks) c \<in> set new \<longrightarrow> ks \<noteq> []"
    by auto
  from run pp have "h' = h1"
    and "n = (case r of Some err \<Rightarrow> if error_code err = ''NoSuchBucket'' then 0 else d
              | None \<Rightarrow> d)"
    by (auto simp: empty_document_bucket_def split: option.splits if_splits)
  with new have "h' = h @ new"
    "(\<forall>err. first_error new = Some err \<longrightarrow> error_code err \<noteq> ''NoSuchBucket'')
       \<longrightarrow> n = submitted new"
    "\<forall>b ks c. Request (DeleteObjects b ks) c \<in> set new \<longrightarrow> ks \<noteq> []"
    by (auto split: option.splits)
  then show "\<exists>new. h' = h @ new
         \<and> ((\<forall>err. first_error new = Some err \<longrightarrow> error_code err \<noteq> ''NoSuchBucket'')
              \<longrightarrow> n = submitted new)
         \<and> (\<forall>b ks c. Request (DeleteObjects b ks) c \<in> set new \<longrightarrow> ks \<noteq> [])"
    by blast
next
  show "documents_deleted (fst (cleanup_storage e summary h)) =
       fst (empty_document_bucket e
              (snd (delete_vector_bucket_step e (snd (delete_vector_index e h)))))"
    by (simp add: cleanup_storage_def split: prod.splits)
next
  assume "cleanup_all e h = (Inr s, h2)"
  then show "\<exists>s0 h0. cleanup_storage e s0 h0 = (s, h2)"
    by (rule cleanup_all_through_storage)
qed

text \<open>
  A listing of four pages, the second empty, the fourth a throttling error: three keys were
  submitted, and 3 is returned and stored.
\<close>

lemma interrupted_purge_counts_three:
  "fst (empty_document_bucket interrupted_env []) = 3
   \<and> submitted (snd (empty_document_bucket interrupted_env [])) = 3
   \<and> map_sum id documents_deleted (fst (cleanup_all interrupted_env [])) = Inr 3"
  by code_simp



section \<open>Provisioning\<close>


lemma printed_quiet: "list_all quiet new \<Longrightarrow> printed new = []"
  by (induction new rule: printed.induct) auto

lemma ensure_document_bucket_quiet:
  "ensure_document_bucket e h = (r, h') \<Longrightarrow> \<exists>new. h' = h @ new \<and> list_all quiet new"
  by (auto simp: ensure_document_bucket_def request_def Let_def split: sum.splits if_splits)

lemma upload_loop_quiet:
  "upload_loop e paths h = (r, h') \<Longrightarrow> \<exists>new. h' = h @ new \<and> list_all quiet new"
proof (induction paths arbitrary: h)
  case Nil
  then show ?case by simp
next
  case (Cons p paths)
  obtain rel is_file where p: "p = (rel, is_file)" by (cases p)
  show ?case
  proof (cases "is_file")
    case False
    with Cons.prems p have "upload_loop e paths h = (r, h')" by simp
    from Cons.IH[OF this] show ?thesis .
  next
    case True
    let ?key = "replace_double_slash (DOCUMENT_S3_PREFIX (settings e) @ rel)"
    let ?c = "UploadFile rel (DOCUMENT_S3_BUCKET (settings e)) ?key"
    show ?thesis
    proof (cases "upload_file (s3 e) h rel (DOCUMENT_S3_BUCKET (settings e)) ?key")
      case (Inl err)
      with Cons.prems p True show ?thesis by (auto simp: request_def Let_def)
    next
      case (Inr u)
      with Cons.prems p True have "upload_loop e paths (h @ [Request ?c None]) = (r, h')"
        by (simp add: request_def Let_def)
      from Cons.IH[OF this] obtain new where "h' = (h @ [Request ?c None]) @ new" "list_all quiet new"
        by blast
      then have "h' = h @ (Request ?c None # new)" "list_all quiet (Request ?c None # new)"
        by simp_all
      then show ?thesis by blast
    qed
  qed
qed

lemma upload_sample_documents_quiet:
  "upload_sample_documents e h = (r, h') \<Longrightarrow> \<exists>new. h' = h @ new \<and> list_all quiet new"
  by (auto simp: upload_sample_documents_def split: if_splits dest: upload_loop_quiet)

lemma ensure_vector_bucket_and_index_quiet:
  "ensure_vector_bucket_and_index e h = (r, h') \<Longrightarrow> \<exists>new. h' = h @ new \<and> list_all quiet new"
  by (auto simp: ensure_vector_bucket_and_index_def request_def Let_def
           split: sum.splits if_splits)

lemma ensure_bedrock_kb_role_quiet:
  "ensure_bedrock_kb_role e d b i h = (r, h') \<Longrightarrow> \<exists>new. h' = h @ new \<and> list_all quiet new"
  by (auto simp: ensure_bedrock_kb_role_def request_def Let_def
           split: sum.splits if_splits)

lemma search_pages_quiet:
  "search_pages c name pages h = (r, h') \<Longrightarrow> \<not> is_deletion c \<Longrightarrow>
     \<exists>new. h' = h @ new \<and> list_all quiet new"
proof (induction pages arbitrary: h)
  case Nil
  then show ?case by simp
next
  case (Cons page pages)
  show ?case
  proof (cases page)
    case (Inl err)
    with Cons.prems show ?thesis by (auto simp: request_def)
  next
    case (Inr summaries)
    show ?thesis
    proof (cases "find_by_name name summaries")
      case (Some ident)
      with Cons.prems Inr show ?thesis by (auto simp: request_def)
    next
      case None
      with Cons.prems Inr have "search_pages c name pages (h @ [Request c None]) = (r, h')"
        by (simp add: request_def)
      from Cons.IH[OF this Cons.prems(2)] obtain new
        where "h' = (h @ [Request c None]) @ new" "list_all quiet new" by blast
      then have "h' = h @ (Request c None # new)" "list_all quiet (Request c None # new)"
        using Cons.prems(2) by simp_all
      then show ?thesis by blast
    qed
  qed
qed

lemma get_or_create_knowledge_base_quiet:
  "get_or_create_knowledge_base e b i ro h = (r, h') \<Longrightarrow>
     \<exists>new. h' = h @ new \<and> list_all quiet new"
  unfolding get_or_create_knowledge_base_def
  by (auto simp: request_def split: prod.splits sum.splits option.splits
           dest!: search_pages_quiet)

lemma get_or_create_data_source_quiet:
  "get_or_create_data_source e k d h = (r, h') \<Longrightarrow>
     \<exists>new. h' = h @ new \<and> list_all quiet new"
  unfolding get_or_create_data_source_def
  by (auto simp: request_def split: prod.splits sum.splits option.splits
           dest!: search_pages_quiet)

lemma quiet_no_deletion: "quiet ev \<Longrightarrow> no_deletion ev"
  by (cases ev) auto

lemma logged_step:
  assumes "logged label (r0, h1) = (r, h')" "h1 = h @ q" "list_all quiet q"
  shows "r = r0 \<and> (\<exists>new. h' = h @ new \<and> list_all no_deletion new \<and> printed new = [marker label r]
           \<and> new \<noteq> [] \<and> last new = Printed (marker label r))"
proof -
  have nd: "list_all no_deletion q" using assms(3) by (auto simp: list_all_iff quiet_no_deletion)
  have "r = r0" "h' = h @ (q @ [Printed (marker label r)])"
    using assms(1,2) by (auto simp: logged_def split: sum.splits)
  moreover have "list_all no_deletion (q @ [Printed (marker label r)])"
    "printed (q @ [Printed (marker label r)]) = [marker label r]"
    using nd printed_quiet[OF assms(3)] by simp_all
  ultimately show ?thesis by (intro conjI exI[of _ "q @ [Printed (marker label r)]"]) simp_all
qed

lemma provision_document_bucket_step:
  assumes "provision_document_bucket e h = (r, h')"
  shows "\<exists>new. h' = h @ new \<and> list_all no_deletion new
           \<and> printed new = [marker ''document bucket'' r]
           \<and> new \<noteq> [] \<and> last new = Printed (marker ''document bucket'' r)"
proof -
  obtain r0 h1 where s: "ensure_document_bucket e h = (r0, h1)" by force
  from ensure_document_bucket_quiet[OF s] obtain q where "h1 = h @ q" "list_all quiet q" by blast
  from logged_step[OF assms[unfolded provision_document_bucket_def s] this] show ?thesis by blast
qed

lemma provision_sample_documents_step:
  assumes "provision_sample_documents e h = (r, h')"
  shows "\<exists>new. h' = h @ new \<and> list_all no_deletion new
           \<and> printed new = [marker ''sample document upload'' r]
           \<and> new \<noteq> [] \<and> last new = Printed (marker ''sample document upload'' r)"
proof -
  obtain r0 h1 where s: "upload_sample_documents e h = (r0, h1)" by force
  from upload_sample_documents_quiet[OF s] obtain q where "h1 = h @ q" "list_all quiet q" by blast
  from logged_step[OF assms[unfolded provision_sample_documents_def s] this] show ?thesis by blast
qed

lemma provision_vector_bucket_and_index_step:
  assumes "provision_vector_bucket_and_index e h = (r, h')"
  shows "\<exists>new. h' = h @ new \<and> list_all no_deletion new
           \<and> printed new = [marker ''S3 Vectors bucket and index'' r]
           \<and> new \<noteq> [] \<and> last new = Printed (marker ''S3 Vectors bucket and index'' r)"
proof -
  obtain r0 h1 where s: "ensure_vector_bucket_and_index e h = (r0, h1)" by force
  from ensure_vector_bucket_and_index_quiet[OF s] obtain q where "h1 = h @ q" "list_all quiet q"
    by blast
  from logged_step[OF assms[unfolded provision_vector_bucket_and_index_def s] this]
  show ?thesis by blast
qed

lemma provision_bedrock_kb_role_step:
  assumes "provision_bedrock_kb_role e d b i h = (r, h')"
  shows "\<exists>new. h' = h @ new \<and> list_all no_deletion new
           \<and> printed new = [marker ''Bedrock knowledge base role'' r]
           \<and> new \<noteq> [] \<and> last new = Printed (marker ''Bedrock knowledge base role'' r)"
proof -
  obtain r0 h1 where s: "ensure_bedrock_kb_role e d b i h = (r0, h1)" by force
  from ensure_bedrock_kb_role_quiet[OF s] obtain q where "h1 = h @ q" "list_all quiet q" by blast
  from logged_step[OF assms[unfolded provision_bedrock_kb_role_def s] this] show ?thesis by blast
qed

lemma provision_knowledge_base_step:
  assumes "provision_knowledge_base e b i ro h = (r, h')"
  shows "\<exists>new. h' = h @ new \<and> list_all no_deletion new
           \<and> printed new = [marker ''knowledge base'' r]
           \<and> new \<noteq> [] \<and> last new = Printed (marker ''knowledge base'' r)"
proof -
  obtain r0 h1 where s: "get_or_create_knowledge_base e b i ro h = (r0, h1)" by force
  from get_or_create_knowledge_base_quiet[OF s] obtain q where "h1 = h @ q" "list_all quiet q"
    by blast
  from logged_step[OF assms[unfolded provision_knowledge_base_def s] this] show ?thesis by blast
qed

lemma provision_data_source_step:
  assumes "provision_data_source e k d h = (r, h')"
  shows "\<exists>new. h' = h @ new \<and> list_all no_deletion new
           \<and> printed new = [marker ''data source'' r]
           \<and> new \<noteq> [] \<and> last new = Printed (marker ''data source'' r)"
proof -
  obtain r0 h1 where s: "get_or_create_data_source e k d h = (r0, h1)" by force
  from get_or_create_data_source_quiet[OF s] obtain q where "h1 = h @ q" "list_all quiet q"
    by blast
  from logged_step[OF assms[unfolded provision_data_source_def s] this] show ?thesis by blast
qed

lemma provision_all_trace:
  assumes "provision_all e h = (r, h')"
  shows "\<exists>new. h' = h @ new \<and> list_all no_deletion new
          \<and> (case r of
                Inl x \<Rightarrow> \<exists>label \<in> set step_labels.
                    printed new = map SUCCESS (takeWhile (\<lambda>l. l \<noteq> label) step_labels)
                                  @ [FAIL label x]
                  \<and> last new = Printed (FAIL label x)
              | Inr res \<Rightarrow> printed new = map SUCCESS step_labels)"
  using assms unfolding provision_all_def
  apply (simp split: prod.splits sum.splits)
  apply (auto dest!: provision_document_bucket_step provision_sample_documents_step
      provision_vector_bucket_and_index_step provision_bedrock_kb_role_step
      provision_knowledge_base_step provision_data_source_step simp: step_labels_def)
  done



text \<open>
  Claim C3, as stated, fails: the result of \<open>provision_all\<close> has four fields and none of
  them is the document-bucket ARN. Two runs that differ only in the document bucket (and so
  in its ARN) return the same result.
\<close>

theorem result_without_document_bucket_arn:
  "fst (provision_all test_env []) =
     Inr \<lparr>knowledge_base_id = ''KB1'', data_source_id = ''DS1'',
          vector_bucket_arn = ''arn:aws:s3vectors:::bucket/vectors'',
          vector_index_arn = ''arn:aws:s3vectors:::bucket/vectors/index/index''\<rparr>
   \<and> fst (provision_all other_docs_env []) = fst (provision_all test_env [])
   \<and> fst (ensure_document_bucket test_env []) = Inr ''arn:aws:s3:::docs''
   \<and> fst (ensure_document_bucket other_docs_env []) = Inr ''arn:aws:s3:::other-docs''"
  by code_simp

text \<open>
  Claim C3, amended. Whenever \<open>provision_all\<close> returns without raising, each of its six
  steps completed without error, in order, and the result is the aggregate of four
  identifiers, each the value its step returned: the knowledge-base ID, the data-source ID,
  the vector-bucket ARN and the vector-index ARN. The document-bucket ARN and the role ARN
  are passed to later steps and are not part of the result.
\<close>

theorem provision_all_result:
  "provision_all e h = (Inr res, h') \<longrightarrow>
     (\<exists>doc g1 u g2 vb vi g3 role g4 kb g5 ds g6.
        ensure_document_bucket e h = (Inr doc, g1)
      \<and> upload_sample_documents e (g1 @ [Printed (SUCCESS ''document bucket'')]) = (Inr u, g2)
      \<and> ensure_vector_bucket_and_index e (g2 @ [Printed (SUCCESS ''sample document upload'')])
          = (Inr (vb, vi), g3)
      \<and> ensure_bedrock_kb_role e doc vb vi (g3 @ [Printed (SUCCESS ''S3 Vectors bucket and index'')])
          = (Inr role, g4)
      \<and> get_or_create_knowledge_base e vb vi role
            (g4 @ [Printed (SUCCESS ''Bedrock knowledge base role'')]) = (Inr kb, g5)
      \<and> get_or_create_data_source e kb doc (g5 @ [Printed (SUCCESS ''knowledge base'')])
          = (Inr ds, g6)
      \<and> h' = g6 @ [Printed (SUCCESS ''data source'')]
      \<and> res = \<lparr>knowledge_base_id = kb, data_source_id = ds,
                vector_bucket_arn = vb, vector_index_arn = vi\<rparr>)"
  unfolding provision_all_def provision_document_bucket_def provision_sample_documents_def
    provision_vector_bucket_and_index_def provision_bedrock_kb_role_def
    provision_knowledge_base_def provision_data_source_def logged_def
  by (auto split: prod.splits sum.splits)

text \<open>
  Witness for C3 (amended): the environment in which every call succeeds.
\<close>

theorem provision_all_result_witness:
  "\<exists>h'. provision_all test_env [] =
       (Inr \<lparr>knowledge_base_id = ''KB1'', data_source_id = ''DS1'',
             vector_bucket_arn = ''arn:aws:s3vectors:::bucket/vectors'',
             vector_index_arn = ''arn:aws:s3vectors:::bucket/vectors/index/index''\<rparr>, h')
     \<and> (\<exists>doc g1 u g2 vb vi g3 role g4 kb g5 ds g6.
        ensure_document_bucket test_env [] = (Inr doc, g1)
      \<and> upload_sample_documents test_env (g1 @ [Printed (SUCCESS ''document bucket'')])
          = (Inr u, g2)
      \<and> ensure_vector_bucket_and_index test_env
            (g2 @ [Printed (SUCCESS ''sample document upload'')]) = (Inr (vb, vi), g3)
      \<and> ensure_bedrock_kb_role test_env doc vb vi
            (g3 @ [Printed (SUCCESS ''S3 Vectors bucket and index'')]) = (Inr role, g4)
      \<and> get_or_create_knowledge_base test_env vb vi role
            (g4 @ [Printed (SUCCESS ''Bedrock knowledge base role'')]) = (Inr kb, g5)
      \<and> get_or_create_data_source test_env kb doc (g5 @ [Printed (SUCCESS ''knowledge base'')])
          = (Inr ds, g6)
      \<and> h' = g6 @ [Printed (SUCCESS ''data source'')]
      \<and> \<lparr>knowledge_base_id = ''KB1'', data_source_id = ''DS1'',
          vector_bucket_arn = ''arn:aws:s3vectors:::bucket/vectors'',
          vector_index_arn = ''arn:aws:s3vectors:::bucket/vectors/index/index''\<rparr>
         = \<lparr>knowledge_base_id = kb, data_source_id = ds,
            vector_bucket_arn = vb, vector_index_arn = vi\<rparr>)"
proof -
  have "fst (provision_all test_env []) =
       Inr \<lparr>knowledge_base_id = ''KB1'', data_source_id = ''DS1'',
             vector_bucket_arn = ''arn:aws:s3vectors:::bucket/vectors'',
             vector_index_arn = ''arn:aws:s3vectors:::bucket/vectors/index/index''\<rparr>"
    by code_simp
  then obtain h' where run: "provision_all test_env [] =
       (Inr \<lparr>knowledge_base_id = ''KB1'', data_source_id = ''DS1'',
             vector_bucket_arn = ''arn:aws:s3vectors:::bucket/vectors'',
             vector_index_arn = ''arn:aws:s3vectors:::bucket/vectors/index/index''\<rparr>, h')"
    by (cases "provision_all test_env []") auto
  from provision_all_result[rule_format, OF run] run show ?thesis by blast
qed

text \<open>
  Claim C6. If a step of \<open>provision_all\<close> raises an exception, the earlier steps having
  succeeded, then \<open>provision_all\<close> raises that same exception (so it returns no result,
  partial or other), and the history ends at that step's \<open>[FAIL]\<close> line, printed right after
  the step: nothing of the later steps is executed. Conversely, in every run that raises
  \<open>x\<close>, the printed lines are the \<open>[SUCCESS]\<close> lines of the steps before some step and then
  that step's \<open>[FAIL]\<close> line with \<open>x\<close>, which is the last event. No run, failed or not, issues
  a delete or detach request: nothing is rolled back.
\<close>

theorem provision_all_fail_fast:
  "(ensure_document_bucket e h = (Inl x, g1) \<longrightarrow>
      provision_all e h = (Inl x, g1 @ [Printed (FAIL ''document bucket'' x)]))
   \<and> (provision_document_bucket e h = (Inr doc, h1)
      \<and> upload_sample_documents e h1 = (Inl x, g2) \<longrightarrow>
      provision_all e h = (Inl x, g2 @ [Printed (FAIL ''sample document upload'' x)]))
   \<and> (provision_document_bucket e h = (Inr doc, h1)
      \<and> provision_sample_documents e h1 = (Inr u, h2)
      \<and> ensure_vector_bucket_and_index e h2 = (Inl x, g3) \<longrightarrow>
      provision_all e h = (Inl x, g3 @ [Printed (FAIL ''S3 Vectors bucket and index'' x)]))
   \<and> (provision_document_bucket e h = (Inr doc, h1)
      \<and> provision_sample_documents e h1 = (Inr u, h2)
      \<and> provision_vector_bucket_and_index e h2 = (Inr (vb, vi), h3)
      \<and> ensure_bedrock_kb_role e doc vb vi h3 = (Inl x, g4) \<longrightarrow>
      provision_all e h = (Inl x, g4 @ [Printed (FAIL ''Bedrock knowledge base role'' x)]))
   \<and> (provision_document_bucket e h = (Inr doc, h1)
      \<and> provision_sample_documents e h1 = (Inr u, h2)
      \<and> provision_vector_bucket_and_index e h2 = (Inr (vb, vi), h3)
      \<and> provision_bedrock_kb_role e doc vb vi h3 = (Inr role, h4)
      \<and> get_or_create_knowledge_base e vb vi role h4 = (Inl x, g5) \<longrightarrow>
      provision_all e h = (Inl x, g5 @ [Printed (FAIL ''knowledge base'' x)]))
   \<and> (provision_document_bucket e h = (Inr doc, h1)
      \<and> provision_sample_documents e h1 = (Inr u, h2)
      \<and> provision_vector_bucket_and_index e h2 = (Inr (vb, vi), h3)
      \<and> provision_bedrock_kb_role e doc vb vi h3 = (Inr role, h4)
      \<and> provision_knowledge_base e vb vi role h4 = (Inr kb, h5)
      \<and> get_or_create_data_source e kb doc h5 = (Inl x, g6) \<longrightarrow>
      provision_all e h = (Inl x, g6 @ [Printed (FAIL ''data source'' x)]))
   \<and> (provision_all e h = (r, h') \<longrightarrow>
      (\<exists>new. h' = h @ new \<and> list_all no_deletion new
          \<and> (case r of
                Inl x \<Rightarrow> \<exists>label \<in> set step_labels.
                    printed new = map SUCCESS (takeWhile (\<lambda>l. l \<noteq> label) step_labels)
                                  @ [FAIL label x]
                  \<and> last new = Printed (FAIL label x)
              | Inr res \<Rightarrow> printed new = map SUCCESS step_labels)))"
proof (intro conjI impI)
  assume "provision_all e h = (r, h')"
  then show "\<exists>new. h' = h @ new \<and> list_all no_deletion new
          \<and> (case r of
                Inl x \<Rightarrow> \<exists>label \<in> set step_labels.
                    printed new = map SUCCESS (takeWhile (\<lambda>l. l \<noteq> label) step_labels)
                                  @ [FAIL label x]
                  \<and> last new = Printed (FAIL label x)
              | Inr res \<Rightarrow> printed new = map SUCCESS step_labels)"
    by (rule provision_all_trace)
qed (simp_all add: provision_all_def provision_document_bucket_def
       provision_sample_documents_def provision_vector_bucket_and_index_def
       provision_bedrock_kb_role_def provision_knowledge_base_def provision_data_source_def
       logged_def)

text \<open>
  Witness for C6: six environments, the k-th failing in step k, and the trace of the third.
\<close>

theorem provision_all_fail_fast_witness:
  "ensure_document_bucket fail1_env [] = (Inl (ClientError (ClientErr ''ClientError'' ''403'')), snd (ensure_document_bucket fail1_env []))
   \<and> provision_all fail1_env [] = (Inl (ClientError (ClientErr ''ClientError'' ''403'')), snd (ensure_document_bucket fail1_env []) @ [Printed (FAIL ''document bucket'' (ClientError (ClientErr ''ClientError'' ''403'')))])
   \<and> provision_document_bucket fail2_env [] = (Inr ''arn:aws:s3:::docs'', snd (provision_document_bucket fail2_env []))
   \<and> upload_sample_documents fail2_env (snd (provision_document_bucket fail2_env [])) = (Inl (FileNotFoundError ''Local data directory not found: data/input''), snd (upload_sample_documents fail2_env (snd (provision_document_bucket fail2_env []))))
   \<and> provision_all fail2_env [] = (Inl (FileNotFoundError ''Local data directory not found: data/input''), snd (upload_sample_documents fail2_env (snd (provision_document_bucket fail2_env []))) @ [Printed (FAIL ''sample document upload'' (FileNotFoundError ''Local data directory not found: data/input''))])
   \<and> provision_document_bucket fail3_env [] = (Inr ''arn:aws:s3:::docs'', snd (provision_document_bucket fail3_env []))
   \<and> provision_sample_documents fail3_env (snd (provision_document_bucket fail3_env [])) = (Inr (), snd (provision_sample_documents fail3_env (snd (provision_document_bucket fail3_env []))))
   \<and> ensure_vector_bucket_and_index fail3_env (snd (provision_sample_documents fail3_env (snd (provision_document_bucket fail3_env [])))) = (Inl (ClientError access_denied), snd (ensure_vector_bucket_and_index fail3_env (snd (provision_sample_documents fail3_env (snd (provision_document_bucket fail3_env []))))))
   \<and> provision_all fail3_env [] = (Inl (ClientError access_denied), snd (ensure_vector_bucket_and_index fail3_env (snd (provision_sample_documents fail3_env (snd (provision_document_bucket fail3_env []))))) @ [Printed (FAIL ''S3 Vectors bucket and index'' (ClientError access_denied))])
   \<and> provision_document_bucket fail4_env [] = (Inr ''arn:aws:s3:::docs'', snd (provision_document_bucket fail4_env []))
   \<and> provision_sample_documents fail4_env (snd (provision_document_bucket fail4_env [])) = (Inr (), snd (provision_sample_documents fail4_env (snd (provision_document_bucket fail4_env []))))
   \<and> provision_vector_bucket_and_index fail4_env (snd (provision_sample_documents fail4_env (snd (provision_document_bucket fail4_env [])))) = (Inr (''arn:aws:s3vectors:::bucket/vectors'', ''arn:aws:s3vectors:::bucket/vectors/index/index''), snd (provision_vector_bucket_and_index fail4_env (snd (provision_sample_documents fail4_env (snd (provision_document_bucket fail4_env []))))))
   \<and> ensure_bedrock_kb_role fail4_env ''arn:aws:s3:::docs'' ''arn:aws:s3vectors:::bucket/vectors'' ''arn:aws:s3vectors:::bucket/vectors/index/index'' (snd (provision_vector_bucket_and_index fail4_env (snd (provision_sample_documents fail4_env (snd (provision_document_bucket fail4_env [])))))) = (Inl (ClientError access_denied), snd (ensure_bedrock_kb_role fail4_env ''arn:aws:s3:::docs'' ''arn:aws:s3vectors:::bucket/vectors'' ''arn:aws:s3vectors:::bucket/vectors/index/index'' (snd (provision_vector_bucket_and_index fail4_env (snd (provision_sample_documents fail4_env (snd (provision_document_bucket fail4_env []))))))))
   \<and> provision_all fail4_env [] = (Inl (ClientError access_denied), snd (ensure_bedrock_kb_role fail4_env ''arn:aws:s3:::docs'' ''arn:aws:s3vectors:::bucket/vectors'' ''arn:aws:s3vectors:::bucket/vectors/index/index'' (snd (provision_vector_bucket_and_index fail4_env (snd (provision_sample_documents fail4_env (snd (provision_document_bucket fail4_env []))))))) @ [Printed (FAIL ''Bedrock knowledge base role'' (ClientError access_denied))])
   \<and> provision_document_bucket fail5_env [] = (Inr ''arn:aws:s3:::docs'', snd (provision_document_bucket fail5_env []))
   \<and> provision_sample_documents fail5_env (snd (provision_document_bucket fail5_env [])) = (Inr (), snd (provision_sample_documents fail5_env (snd (provision_document_bucket fail5_env []))))
   \<and> provision_vector_bucket_and_index fail5_env (snd (provision_sample_documents fail5_env (snd (provision_document_bucket fail5_env [])))) = (Inr (''arn:aws:s3vectors:::bucket/vectors'', ''arn:aws:s3vectors:::bucket/vectors/index/index''), snd (provision_vector_bucket_and_index fail5_env (snd (provision_sample_documents fail5_env (snd (provision_document_bucket fail5_env []))))))
   \<and> provision_bedrock_kb_role fail5_env ''arn:aws:s3:::docs'' ''arn:aws:s3vectors:::bucket/vectors'' ''arn:aws:s3vectors:::bucket/vectors/index/index'' (snd (provision_vector_bucket_and_index fail5_env (snd (provision_sample_documents fail5_env (snd (provision_document_bucket fail5_env [])))))) = (Inr ''arn:aws:iam:::role/BedrockKnowledgeBaseRole'', snd (provision_bedrock_kb_role fail5_env ''arn:aws:s3:::docs'' ''arn:aws:s3vectors:::bucket/vectors'' ''arn:aws:s3vectors:::bucket/vectors/index/index'' (snd (provision_vector_bucket_and_index fail5_env (snd (provision_sample_documents fail5_env (snd (provision_document_bucket fail5_env []))))))))
   \<and> get_or_create_knowledge_base fail5_env ''arn:aws:s3vectors:::bucket/vectors'' ''arn:aws:s3vectors:::bucket/vectors/index/index'' ''arn:aws:iam:::role/BedrockKnowledgeBaseRole'' (snd (provision_bedrock_kb_role fail5_env ''arn:aws:s3:::docs'' ''arn:aws:s3vectors:::bucket/vectors'' ''arn:aws:s3vectors:::bucket/vectors/index/index'' (snd (provision_vector_bucket_and_index fail5_env (snd (provision_sample_documents fail5_env (snd (provision_document_bucket fail5_env [])))))))) = (Inl (ClientError access_denied), snd (get_or_create_knowledge_base fail5_env ''arn:aws:s3vectors:::bucket/vectors'' ''arn:aws:s3vectors:::bucket/vectors/index/index'' ''arn:aws:iam:::role/BedrockKnowledgeBaseRole'' (snd (provision_bedrock_kb_role fail5_env ''arn:aws:s3:::docs'' ''arn:aws:s3vectors:::bucket/vectors'' ''arn:aws:s3vectors:::bucket/vectors/index/index'' (snd (provision_vector_bucket_and_index fail5_env (snd (provision_sample_documents fail5_env (snd (provision_document_bucket fail5_env []))))))))))
   \<and> provision_all fail5_env [] = (Inl (ClientError access_denied), snd (get_or_create_knowledge_base fail5_env ''arn:aws:s3vectors:::bucket/vectors'' ''arn:aws:s3vectors:::bucket/vectors/index/index'' ''arn:aws:iam:::role/BedrockKnowledgeBaseRole'' (snd (provision_bedrock_kb_role fail5_env ''arn:aws:s3:::docs'' ''arn:aws:s3vectors:::bucket/vectors'' ''arn:aws:s3vectors:::bucket/vectors/index/index'' (snd (provision_vector_bucket_and_index fail5_env (snd (provision_sample_documents fail5_env (snd (provision_document_bucket fail5_env []))))))))) @ [Printed (FAIL ''knowledge base'' (ClientError access_denied))])
   \<and> provision_document_bucket fail6_env [] = (Inr ''arn:aws:s3:::docs'', snd (provision_document_bucket fail6_env []))
   \<and> provision_sample_documents fail6_env (snd (provision_document_bucket fail6_env [])) = (Inr (), snd (provision_sample_documents fail6_env (snd (provision_document_bucket fail6_env []))))
   \<and> provision_vector_bucket_and_index fail6_env (snd (provision_sample_documents fail6_env (snd (provision_document_bucket fail6_env [])))) = (Inr (''arn:aws:s3vectors:::bucket/vectors'', ''arn:aws:s3vectors:::bucket/vectors/index/index''), snd (provision_vector_bucket_and_index fail6_env (snd (provision_sample_documents fail6_env (snd (provision_document_bucket fail6_env []))))))
   \<and> provision_bedrock_kb_role fail6_env ''arn:aws:s3:::docs'' ''arn:aws:s3vectors:::bucket/vectors'' ''arn:aws:s3vectors:::bucket/vectors/index/index'' (snd (provision_vector_bucket_and_index fail6_env (snd (provision_sample_documents fail6_env (snd (provision_document_bucket fail6_env [])))))) = (Inr ''arn:aws:iam:::role/BedrockKnowledgeBaseRole'', snd (provision_bedrock_kb_role fail6_env ''arn:aws:s3:::docs'' ''arn:aws:s3vectors:::bucket/vectors'' ''arn:aws:s3vectors:::bucket/vectors/index/index'' (snd (provision_vector_bucket_and_index fail6_env (snd (provision_sample_documents fail6_env (snd (provision_document_bucket fail6_env []))))))))
   \<and> provision_knowledge_base fail6_env ''arn:aws:s3vectors:::bucket/vectors'' ''arn:aws:s3vectors:::bucket/vectors/index/index'' ''arn:aws:iam:::role/BedrockKnowledgeBaseRole'' (snd (provision_bedrock_kb_role fail6_env ''arn:aws:s3:::docs'' ''arn:aws:s3vectors:::bucket/vectors'' ''arn:aws:s3vectors:::bucket/vectors/index/index'' (snd (provision_vector_bucket_and_index fail6_env (snd (provision_sample_documents fail6_env (snd (provision_document_bucket fail6_env [])))))))) = (Inr ''KB1'', snd (provision_knowledge_base fail6_env ''arn:aws:s3vectors:::bucket/vectors'' ''arn:aws:s3vectors:::bucket/vectors/index/index'' ''arn:aws:iam:::role/BedrockKnowledgeBaseRole'' (snd (provision_bedrock_kb_role fail6_env ''arn:aws:s3:::docs'' ''arn:aws:s3vectors:::bucket/vectors'' ''arn:aws:s3vectors:::bucket/vectors/index/index'' (snd (provision_vector_bucket_and_index fail6_env (snd (provision_sample_documents fail6_env (snd (provision_document_bucket fail6_env []))))))))))
   \<and> get_or_create_data_source fail6_env ''KB1'' ''arn:aws:s3:::docs'' (snd (provision_knowledge_base fail6_env ''arn:aws:s3vectors:::bucket/vectors'' ''arn:aws:s3vectors:::bucket/vectors/index/index'' ''arn:aws:iam:::role/BedrockKnowledgeBaseRole'' (snd (provision_bedrock_kb_role fail6_env ''arn:aws:s3:::docs'' ''arn:aws:s3vectors:::bucket/vectors'' ''arn:aws:s3vectors:::bucket/vectors/index/index'' (snd (provision_vector_bucket_and_index fail6_env (snd (provision_sample_documents fail6_env (snd (provision_document_bucket fail6_env [])))))))))) = (Inl (ClientError access_denied), snd (get_or_create_data_source fail6_env ''KB1'' ''arn:aws:s3:::docs'' (snd (provision_knowledge_base fail6_env ''arn:aws:s3vectors:::bucket/vectors'' ''arn:aws:s3vectors:::bucket/vectors/index/index'' ''arn:aws:iam:::role/BedrockKnowledgeBaseRole'' (snd (provision_bedrock_kb_role fail6_env ''arn:aws:s3:::docs'' ''arn:aws:s3vectors:::bucket/vectors'' ''arn:aws:s3vectors:::bucket/vectors/index/index'' (snd (provision_vector_bucket_and_index fail6_env (snd (provision_sample_documents fail6_env (snd (provision_document_bucket fail6_env []))))))))))))
   \<and> provision_all fail6_env [] = (Inl (ClientError access_denied), snd (get_or_create_data_source fail6_env ''KB1'' ''arn:aws:s3:::docs'' (snd (provision_knowledge_base fail6_env ''arn:aws:s3vectors:::bucket/vectors'' ''arn:aws:s3vectors:::bucket/vectors/index/index'' ''arn:aws:iam:::role/BedrockKnowledgeBaseRole'' (snd (provision_bedrock_kb_role fail6_env ''arn:aws:s3:::docs'' ''arn:aws:s3vectors:::bucket/vectors'' ''arn:aws:s3vectors:::bucket/vectors/index/index'' (snd (provision_vector_bucket_and_index fail6_env (snd (provision_sample_documents fail6_env (snd (provision_document_bucket fail6_env []))))))))))) @ [Printed (FAIL ''data source'' (ClientError access_denied))])
   \<and> (\<exists>new. snd (provision_all fail3_env []) = [] @ new \<and> list_all no_deletion new
        \<and> (\<exists>label \<in> set step_labels.
              printed new = map SUCCESS (takeWhile (\<lambda>l. l \<noteq> label) step_labels)
                            @ [FAIL label (ClientError access_denied)]
            \<and> last new = Printed (FAIL label (ClientError access_denied))))"
proof -
  have p1_1: "ensure_document_bucket fail1_env [] = (Inl (ClientError (ClientErr ''ClientError'' ''403'')), snd (ensure_document_bucket fail1_env []))"
    by (simp add: prod_eq_iff, code_simp)
  note c1 = provision_all_fail_fast[THEN conjunct1, rule_format, OF p1_1]
  have p2_1: "provision_document_bucket fail2_env [] = (Inr ''arn:aws:s3:::docs'', snd (provision_document_bucket fail2_env []))"
    by (simp add: prod_eq_iff, code_simp)
  have p2_2: "upload_sample_documents fail2_env (snd (provision_document_bucket fail2_env [])) = (Inl (FileNotFoundError ''Local data directory not found: data/input''), snd (upload_sample_documents fail2_env (snd (provision_document_bucket fail2_env []))))"
    by (simp add: prod_eq_iff, code_simp)
  note c2 = provision_all_fail_fast[THEN conjunct2, THEN conjunct1, rule_format, OF conjI[OF p2_1 p2_2]]
  have p3_1: "provision_document_bucket fail3_env [] = (Inr ''arn:aws:s3:::docs'', snd (provision_document_bucket fail3_env []))"
    by (simp add: prod_eq_iff, code_simp)
  have p3_2: "provision_sample_documents fail3_env (snd (provision_document_bucket fail3_env [])) = (Inr (), snd (provision_sample_documents fail3_env (snd (provision_document_bucket fail3_env []))))"
    by (simp add: prod_eq_iff, code_simp)
  have p3_3: "ensure_vector_bucket_and_index fail3_env (snd (provision_sample_documents fail3_env (snd (provision_document_bucket fail3_env [])))) = (Inl (ClientError access_denied), snd (ensure_vector_bucket_and_index fail3_env (snd (provision_sample_documents fail3_env (snd (provision_document_bucket fail3_env []))))))"
    by (simp add: prod_eq_iff, code_simp)
  note c3 = provision_all_fail_fast[THEN conjunct2, THEN conjunct2, THEN conjunct1, rule_format, OF conjI[OF p3_1 conjI[OF p3_2 p3_3]]]
  have p4_1: "provision_document_bucket fail4_env [] = (Inr ''arn:aws:s3:::docs'', snd (provision_document_bucket fail4_env []))"
    by (simp add: prod_eq_iff, code_simp)
  have p4_2: "provision_sample_documents fail4_env (snd (provision_document_bucket fail4_env [])) = (Inr (), snd (provision_sample_documents fail4_env (snd (provision_document_bucket fail4_env []))))"
    by (simp add: prod_eq_iff, code_simp)
  have p4_3: "provision_vector_bucket_and_index fail4_env (snd (provision_sample_documents fail4_env (snd (provision_document_bucket fail4_env [])))) = (Inr (''arn:aws:s3vectors:::bucket/vectors'', ''arn:aws:s3vectors:::bucket/vectors/index/index''), snd (provision_vector_bucket_and_index fail4_env (snd (provision_sample_documents fail4_env (snd (provision_document_bucket fail4_env []))))))"
    by (simp add: prod_eq_iff, code_simp)
  have p4_4: "ensure_bedrock_kb_role fail4_env ''arn:aws:s3:::docs'' ''arn:aws:s3vectors:::bucket/vectors'' ''arn:aws:s3vectors:::bucket/vectors/index/index'' (snd (provision_vector_bucket_and_index fail4_env (snd (provision_sample_documents fail4_env (snd (provision_document_bucket fail4_env [])))))) = (Inl (ClientError access_denied), snd (ensure_bedrock_kb_role fail4_env ''arn:aws:s3:::docs'' ''arn:aws:s3vectors:::bucket/vectors'' ''arn:aws:s3vectors:::bucket/vectors/index/index'' (snd (provision_vector_bucket_and_index fail4_env (snd (provision_sample_documents fail4_env (snd (provision_document_bucket fail4_env []))))))))"
    by (simp add: prod_eq_iff, code_simp)
  note c4 = provision_all_fail_fast[THEN conjunct2, THEN conjunct2, THEN conjunct2, THEN conjunct1, rule_format, OF conjI[OF p4_1 conjI[OF p4_2 conjI[OF p4_3 p4_4]]]]
  have p5_1: "provision_document_bucket fail5_env [] = (Inr ''arn:aws:s3:::docs'', snd (provision_document_bucket fail5_env []))"
    by (simp add: prod_eq_iff, code_simp)
  have p5_2: "provision_sample_documents fail5_env (snd (provision_document_bucket fail5_env [])) = (Inr (), snd (provision_sample_documents fail5_env (snd (provision_document_bucket fail5_env []))))"
    by (simp add: prod_eq_iff, code_simp)
  have p5_3: "provision_vector_bucket_and_index fail5_env (snd (provision_sample_documents fail5_env (snd (provision_document_bucket fail5_env [])))) = (Inr (''arn:aws:s3vectors:::bucket/vectors'', ''arn:aws:s3vectors:::bucket/vectors/index/index''), snd (provision_vector_bucket_and_index fail5_env (snd (provision_sample_documents fail5_env (snd (provision_document_bucket fail5_env []))))))"
    by (simp add: prod_eq_iff, code_simp)
  have p5_4: "provision_bedrock_kb_role fail5_env ''arn:aws:s3:::docs'' ''arn:aws:s3vectors:::bucket/vectors'' ''arn:aws:s3vectors:::bucket/vectors/index/index'' (snd (provision_vector_bucket_and_index fail5_env (snd (provision_sample_documents fail5_env (snd (provision_document_bucket fail5_env [])))))) = (Inr ''arn:aws:iam:::role/BedrockKnowledgeBaseRole'', snd (provision_bedrock_kb_role fail5_env ''arn:aws:s3:::docs'' ''arn:aws:s3vectors:::bucket/vectors'' ''arn:aws:s3vectors:::bucket/vectors/index/index'' (snd (provision_vector_bucket_and_index fail5_env (snd (provision_sample_documents fail5_env (snd (provision_document_bucket fail5_env []))))))))"
    by (simp add: prod_eq_iff, code_simp)
  have p5_5: "get_or_create_knowledge_base fail5_env ''arn:aws:s3vectors:::bucket/vectors'' ''arn:aws:s3vectors:::bucket/vectors/index/index'' ''arn:aws:iam:::role/BedrockKnowledgeBaseRole'' (snd (provision_bedrock_kb_role fail5_env ''arn:aws:s3:::docs'' ''arn:aws:s3vectors:::bucket/vectors'' ''arn:aws:s3vectors:::bucket/vectors/index/index'' (snd (provision_vector_bucket_and_index fail5_env (snd (provision_sample_documents fail5_env (snd (provision_document_bucket fail5_env [])))))))) = (Inl (ClientError access_denied), snd (get_or_create_knowledge_base fail5_env ''arn:aws:s3vectors:::bucket/vectors'' ''arn:aws:s3vectors:::bucket/vectors/index/index'' ''arn:aws:iam:::role/BedrockKnowledgeBaseRole'' (snd (provision_bedrock_kb_role fail5_env ''arn:aws:s3:::docs'' ''arn:aws:s3vectors:::bucket/vectors'' ''arn:aws:s3vectors:::bucket/vectors/index/index'' (snd (provision_vector_bucket_and_index fail5_env (snd (provision_sample_documents fail5_env (snd (provision_document_bucket fail5_env []))))))))))"
    by (simp add: prod_eq_iff, code_simp)
  note c5 = provision_all_fail_fast[THEN conjunct2, THEN conjunct2, THEN conjunct2, THEN conjunct2, THEN conjunct1, rule_format, OF conjI[OF p5_1 conjI[OF p5_2 conjI[OF p5_3 conjI[OF p5_4 p5_5]]]]]
  have p6_1: "provision_document_bucket fail6_env [] = (Inr ''arn:aws:s3:::docs'', snd (provision_document_bucket fail6_env []))"
    by (simp add: prod_eq_iff, code_simp)
  have p6_2: "provision_sample_documents fail6_env (snd (provision_document_bucket fail6_env [])) = (Inr (), snd (provision_sample_documents fail6_env (snd (provision_document_bucket fail6_env []))))"
    by (simp add: prod_eq_iff, code_simp)
  have p6_3: "provision_vector_bucket_and_index fail6_env (snd (provision_sample_documents fail6_env (snd (provision_document_bucket fail6_env [])))) = (Inr (''arn:aws:s3vectors:::bucket/vectors'', ''arn:aws:s3vectors:::bucket/vectors/index/index''), snd (provision_vector_bucket_and_index fail6_env (snd (provision_sample_documents fail6_env (snd (provision_document_bucket fail6_env []))))))"
    by (simp add: prod_eq_iff, code_simp)
  have p6_4: "provision_bedrock_kb_role fail6_env ''arn:aws:s3:::docs'' ''arn:aws:s3vectors:::bucket/vectors'' ''arn:aws:s3vectors:::bucket/vectors/index/index'' (snd (provision_vector_bucket_and_index fail6_env (snd (provision_sample_documents fail6_env (snd (provision_document_bucket fail6_env [])))))) = (Inr ''arn:aws:iam:::role/BedrockKnowledgeBaseRole'', snd (provision_bedrock_kb_role fail6_env ''arn:aws:s3:::docs'' ''arn:aws:s3vectors:::bucket/vectors'' ''arn:aws:s3vectors:::bucket/vectors/index/index'' (snd (provision_vector_bucket_and_index fail6_env (snd (provision_sample_documents fail6_env (snd (provision_document_bucket fail6_env []))))))))"
    by (simp add: prod_eq_iff, code_simp)
  have p6_5: "provision_knowledge_base fail6_env ''arn:aws:s3vectors:::bucket/vectors'' ''arn:aws:s3vectors:::bucket/vectors/index/index'' ''arn:aws:iam:::role/BedrockKnowledgeBaseRole'' (snd (provision_bedrock_kb_role fail6_env ''arn:aws:s3:::docs'' ''arn:aws:s3vectors:::bucket/vectors'' ''arn:aws:s3vectors:::bucket/vectors/index/index'' (snd (provision_vector_bucket_and_index fail6_env (snd (provision_sample_documents fail6_env (snd (provision_document_bucket fail6_env [])))))))) = (Inr ''KB1'', snd (provision_knowledge_base fail6_env ''arn:aws:s3vectors:::bucket/vectors'' ''arn:aws:s3vectors:::bucket/vectors/index/index'' ''arn:aws:iam:::role/BedrockKnowledgeBaseRole'' (snd (provision_bedrock_kb_role fail6_env ''arn:aws:s3:::docs'' ''arn:aws:s3vectors:::bucket/vectors'' ''arn:aws:s3vectors:::bucket/vectors/index/index'' (snd (provision_vector_bucket_and_index fail6_env (snd (provision_sample_documents fail6_env (snd (provision_document_bucket fail6_env []))))))))))"
    by (simp add: prod_eq_iff, code_simp)
  have p6_6: "get_or_create_data_source fail6_env ''KB1'' ''arn:aws:s3:::docs'' (snd (provision_knowledge_base fail6_env ''arn:aws:s3vectors:::bucket/vectors'' ''arn:aws:s3vectors:::bucket/vectors/index/index'' ''arn:aws:iam:::role/BedrockKnowledgeBaseRole'' (snd (provision_bedrock_kb_role fail6_env ''arn:aws:s3:::docs'' ''arn:aws:s3vectors:::bucket/vectors'' ''arn:aws:s3vectors:::bucket/vectors/index/index'' (snd (provision_vector_bucket_and_index fail6_env (snd (provision_sample_documents fail6_env (snd (provision_document_bucket fail6_env [])))))))))) = (Inl (ClientError access_denied), snd (get_or_create_data_source fail6_env ''KB1'' ''arn:aws:s3:::docs'' (snd (provision_knowledge_base fail6_env ''arn:aws:s3vectors:::bucket/vectors'' ''arn:aws:s3vectors:::bucket/vectors/index/index'' ''arn:aws:iam:::role/BedrockKnowledgeBaseRole'' (snd (provision_bedrock_kb_role fail6_env ''arn:aws:s3:::docs'' ''arn:aws:s3vectors:::bucket/vectors'' ''arn:aws:s3vectors:::bucket/vectors/index/index'' (snd (provision_vector_bucket_and_index fail6_env (snd (provision_sample_documents fail6_env (snd (provision_document_bucket fail6_env []))))))))))))"
    by (simp add: prod_eq_iff, code_simp)
  note c6 = provision_all_fail_fast[THEN conjunct2, THEN conjunct2, THEN conjunct2, THEN conjunct2, THEN conjunct2, THEN conjunct1, rule_format, OF conjI[OF p6_1 conjI[OF p6_2 conjI[OF p6_3 conjI[OF p6_4 conjI[OF p6_5 p6_6]]]]]]
  have run: "provision_all fail3_env [] = (Inl (ClientError access_denied), snd (provision_all fail3_env []))"
    using c3 by simp
  from provision_all_fail_fast[THEN conjunct2, THEN conjunct2, THEN conjunct2, THEN conjunct2,
      THEN conjunct2, THEN conjunct2, rule_format, OF run]
  have c7: "(\<exists>new. snd (provision_all fail3_env []) = [] @ new \<and> list_all no_deletion new
        \<and> (\<exists>label \<in> set step_labels.
              printed new = map SUCCESS (takeWhile (\<lambda>l. l \<noteq> label) step_labels)
                            @ [FAIL label (ClientError access_denied)]
            \<and> last new = Printed (FAIL label (ClientError access_denied))))"
    by simp
  show ?thesis
    by (intro conjI) (rule p1_1 c1 p2_1 p2_2 c2 p3_1 p3_2 p3_3 c3 p4_1 p4_2 p4_3 p4_4 c4 p5_1 p5_2 p5_3 p5_4 p5_5 c5 p6_1 p6_2 p6_3 p6_4 p6_5 p6_6 c6 c7)+
qed

end
